theory Spec2Isabelle
  imports Complex_Main "HOL-Library.Word"
begin

section \<open>TextureCache.cpp: data model\<close>

text \<open>
  A \<open>gpu::Texture\<close> object lives at an address. A \<open>gpu::TexturePointer\<close>
  (\<open>std::shared_ptr<gpu::Texture>\<close>) is an optional address, \<open>None\<close> being
  \<open>nullptr\<close>; a \<open>std::weak_ptr<gpu::Texture>\<close> is an optional address too, \<open>None\<close>
  being the empty weak pointer. Whether the object behind a weak pointer still has an
  owner is read from the \<open>live\<close> table of the store.
\<close>

type_synonym byte = "8 word"
type_synonym hash = string
type_synonym tex_addr = nat
type_synonym texture_pointer = "tex_addr option"
type_synonym weak_pointer = "tex_addr option"
type_synonym ktx = "byte list"

record gpu_texture =
  texWidth :: int
  texHeight :: int
  source :: string
  storedMip :: "nat \<rightharpoonup> byte list"
  fallbackTexture :: texture_pointer
  ktxBacking :: "ktx option"

text \<open>\<open>_texturesByHashes\<close>: a map from hash to weak pointer; a key can be present with
  an empty weak pointer, which is what \<open>operator[]\<close> inserts for a missing key.\<close>

type_synonym registry = "hash \<rightharpoonup> weak_pointer"

subsection \<open>Weak pointers and the registry\<close>

text \<open>\<open>std::weak_ptr::lock\<close>: the shared pointer when the object still has an owner,
  \<open>nullptr\<close> otherwise.\<close>

definition lock :: "(tex_addr \<Rightarrow> bool) \<Rightarrow> weak_pointer \<Rightarrow> texture_pointer" where
  "lock lv wp = (case wp of None \<Rightarrow> None | Some a \<Rightarrow> if lv a then Some a else None)"

text \<open>\<open>_texturesByHashes[hash]\<close>: the entry, inserted empty when the key is missing.\<close>

definition subscript :: "registry \<Rightarrow> hash \<Rightarrow> weak_pointer \<times> registry" where
  "subscript m h = (case m h of None \<Rightarrow> (None, m(h \<mapsto> None)) | Some wp \<Rightarrow> (wp, m))"

text \<open>\<open>TextureCache::getTextureByHash\<close> (lines 191-202), on the registry.\<close>

definition getTextureByHash ::
  "(tex_addr \<Rightarrow> bool) \<Rightarrow> hash \<Rightarrow> registry \<Rightarrow> texture_pointer \<times> registry" where
  "getTextureByHash lv h m =
     (let (weakPointer, m1) = subscript m h in (lock lv weakPointer, m1))"

text \<open>\<open>TextureCache::cacheTextureByHash\<close> (lines 204-217), on the registry.\<close>

definition cacheTextureByHash ::
  "(tex_addr \<Rightarrow> bool) \<Rightarrow> hash \<Rightarrow> texture_pointer \<Rightarrow> registry \<Rightarrow> texture_pointer \<times> registry" where
  "cacheTextureByHash lv h texture m =
     (let (weakPointer, m1) = subscript m h;
          result = lock lv weakPointer
      in if result = None then (texture, m1(h \<mapsto> texture)) else (result, m1))"

text \<open>What a lookup would find: the registry's live holder for a hash, if any.\<close>

definition holder :: "(tex_addr \<Rightarrow> bool) \<Rightarrow> registry \<Rightarrow> hash \<Rightarrow> texture_pointer" where
  "holder lv m h = fst (getTextureByHash lv h m)"

section \<open>Textures, images and the collaborators outside the file\<close>

text \<open>\<open>NetworkTexture::Type\<close>, with the enumerators the switches of the file name.\<close>

datatype texture_type =
    DEFAULT_TEXTURE | STRICT_TEXTURE | ALBEDO_TEXTURE | NORMAL_TEXTURE | BUMP_TEXTURE
  | SPECULAR_TEXTURE | ROUGHNESS_TEXTURE | GLOSS_TEXTURE | EMISSIVE_TEXTURE | CUBE_TEXTURE
  | OCCLUSION_TEXTURE | LIGHTMAP_TEXTURE | CUSTOM_TEXTURE

text \<open>The functions of \<open>model::TextureUsage\<close> that \<open>getTextureLoaderForType\<close> returns,
  and a loader supplied from outside (\<open>_textureLoader\<close>).\<close>

datatype texture_loader =
    create2DTextureFromImage | createStrict2DTextureFromImage | createAlbedoTextureFromImage
  | createEmissiveTextureFromImage | createLightmapTextureFromImage
  | createCubeTextureFromImage | createCubeTextureFromImageWithoutIrradiance
  | createNormalTextureFromBumpImage | createNormalTextureFromNormalImage
  | createRoughnessTextureFromImage | createRoughnessTextureFromGlossImage
  | createMetallicTextureFromImage | suppliedLoader nat

datatype qformat = Format_Invalid | Format_Valid nat

record qimage =
  imgWidth :: int
  imgHeight :: int
  imgFormat :: qformat

record qurl =
  urlValid :: bool
  urlString :: string
  urlFileName :: string

text \<open>
  What the file calls and does not define, as parameters of the model:
  \<open>QCryptographicHash\<close> (\<open>md5\<close>), \<open>QImage::fromData\<close> and \<open>QImage::scaled\<close>, the
  texture loaders, \<open>gpu::Texture::getStoredSize\<close>, \<open>serialize\<close> and \<open>unserialize\<close>,
  \<open>KTXFile::getKTX\<close>, and whether a write to the file cache succeeds.
  \<open>downscaledSize B w h\<close> stands for the single-precision computation of lines 542-546:
  \<open>scaleFactor = sqrtf(B / (float)(w * h))\<close>, then \<open>(int)(scaleFactor * (float)w + 0.5f)\<close>
  and the same for \<open>h\<close>.
\<close>

record env =
  md5 :: "byte list \<Rightarrow> hash"
  fromData :: "byte list \<Rightarrow> string \<Rightarrow> qimage"
  downscaledSize :: "int \<Rightarrow> int \<Rightarrow> int \<Rightarrow> int \<times> int"
  scaled :: "qimage \<Rightarrow> int \<Rightarrow> int \<Rightarrow> qimage"
  runLoader :: "texture_loader \<Rightarrow> qimage \<Rightarrow> string \<Rightarrow> gpu_texture option"
  getStoredSize :: "gpu_texture \<Rightarrow> nat"
  serialize :: "gpu_texture \<Rightarrow> ktx option"
  unserialize :: "ktx \<Rightarrow> gpu_texture option"
  getKTX :: "byte list \<Rightarrow> ktx option"
  writeSucceeds :: "hash \<Rightarrow> byte list \<Rightarrow> bool"

section \<open>The state\<close>

type_synonym res_id = nat

record texture_cache =
  texturesByHashes :: registry
  ktxCache :: "hash \<rightharpoonup> byte list"
  whiteTexture :: texture_pointer
  grayTexture :: texture_pointer
  blueTexture :: texture_pointer
  blackTexture :: texture_pointer

record network_texture =
  url :: qurl
  textureType :: texture_type
  maxNumPixels :: int
  textureLoader :: "texture_loader option"
  loaded :: bool
  failedToLoad :: bool
  startedLoading :: bool
  originalWidth :: int
  originalHeight :: int
  width :: int
  height :: int
  bytes :: nat
  textureSource :: texture_pointer
  ktxFile :: "byte list option"

text \<open>An \<open>ImageReader\<close> (lines 404-416), with the weak \<open>_resource\<close> of \<open>Reader\<close>.\<close>

record image_reader =
  taskResource :: res_id
  taskUrl :: qurl
  taskContent :: "byte list"
  taskHash :: hash
  taskMaxNumPixels :: int

text \<open>A method call posted with \<open>QMetaObject::invokeMethod\<close>, and the signal emitted.\<close>

datatype invocation =
    LoadContent res_id "byte list"
  | SetImage res_id texture_pointer int int

datatype signal = networkTextureCreated res_id

text \<open>
  The store of texture objects (\<open>textures\<close>, and \<open>live\<close>: the object still has an
  owner), the \<open>TextureCache\<close> singleton with \<open>cacheLive\<close> telling whether
  \<open>DependencyManager::get<TextureCache>()\<close> and \<open>_cache.data()\<close> still give it, the
  resources that exist (a weak pointer to a resource locks exactly when its entry is
  there), the posted method calls, the tasks given to \<open>QThreadPool\<close>, and the signals
  emitted so far.
\<close>

record world =
  textures :: "tex_addr \<Rightarrow> gpu_texture"
  live :: "tex_addr \<Rightarrow> bool"
  nextAddr :: tex_addr
  cache :: texture_cache
  cacheLive :: bool
  resources :: "res_id \<rightharpoonup> network_texture"
  eventQueue :: "invocation list"
  threadPool :: "image_reader list"
  emitted :: "signal list"

datatype crash = NullPointerDereference | BadFunctionCall

subsection \<open>Texture objects\<close>

definition newTexture :: "gpu_texture \<Rightarrow> world \<Rightarrow> tex_addr \<times> world" where
  "newTexture t w =
     (nextAddr w,
      w\<lparr>textures := (textures w)(nextAddr w := t),
        live := (live w)(nextAddr w := True),
        nextAddr := Suc (nextAddr w)\<rparr>)"

text \<open>\<open>texture.reset(p)\<close> for a raw pointer \<open>p\<close> that a loader returned: null, or a new
  object.\<close>

definition reset :: "gpu_texture option \<Rightarrow> world \<Rightarrow> texture_pointer \<times> world" where
  "reset made w =
     (case made of None \<Rightarrow> (None, w)
      | Some t \<Rightarrow> (let (a, w1) = newTexture t w in (Some a, w1)))"

text \<open>A local shared pointer that was the only owner of \<open>old\<close> is assigned \<open>new\<close>.\<close>

definition reassign :: "texture_pointer \<Rightarrow> texture_pointer \<Rightarrow> world \<Rightarrow> world" where
  "reassign old new w =
     (case old of None \<Rightarrow> w
      | Some a \<Rightarrow> if new = Some a then w else w\<lparr>live := (live w)(a := False)\<rparr>)"

definition updTexture :: "tex_addr \<Rightarrow> (gpu_texture \<Rightarrow> gpu_texture) \<Rightarrow> world \<Rightarrow> world" where
  "updTexture a f w = w\<lparr>textures := (textures w)(a := f (textures w a))\<rparr>"

definition createStrict :: "int \<Rightarrow> int \<Rightarrow> gpu_texture" where
  "createStrict w h =
     \<lparr>texWidth = w, texHeight = h, source = [], storedMip = Map.empty,
      fallbackTexture = None, ktxBacking = None\<rparr>"

definition setSource :: "string \<Rightarrow> gpu_texture \<Rightarrow> gpu_texture" where
  "setSource s t = t\<lparr>source := s\<rparr>"

definition assignStoredMip :: "nat \<Rightarrow> byte list \<Rightarrow> gpu_texture \<Rightarrow> gpu_texture" where
  "assignStoredMip level data t = t\<lparr>storedMip := (storedMip t)(level \<mapsto> data)\<rparr>"

definition setFallbackTexture :: "texture_pointer \<Rightarrow> gpu_texture \<Rightarrow> gpu_texture" where
  "setFallbackTexture fb t = t\<lparr>fallbackTexture := fb\<rparr>"

definition setKtxBacking :: "ktx \<Rightarrow> gpu_texture \<Rightarrow> gpu_texture" where
  "setKtxBacking k t = t\<lparr>ktxBacking := Some k\<rparr>"

section \<open>The constant textures (lines 127-170)\<close>

definition OPAQUE_WHITE :: "byte list" where
  "OPAQUE_WHITE = [0xFF, 0xFF, 0xFF, 0xFF]"

definition OPAQUE_GRAY :: "byte list" where
  "OPAQUE_GRAY = [0x80, 0x80, 0x80, 0xFF]"

definition OPAQUE_BLUE :: "byte list" where
  "OPAQUE_BLUE = [0x80, 0x80, 0xFF, 0xFF]"

definition OPAQUE_BLACK :: "byte list" where
  "OPAQUE_BLACK = [0x00, 0x00, 0x00, 0xFF]"

text \<open>The object each getter builds the first time: \<open>createStrict(COLOR_RGBA_32, 1, 1)\<close>,
  \<open>setSource\<close>, \<open>assignStoredMip(0, sizeof(px), px)\<close>. The texel format is not part of
  the model; the four bytes of the one texel are.\<close>

definition constantTexture :: "string \<Rightarrow> byte list \<Rightarrow> gpu_texture" where
  "constantTexture name px = assignStoredMip 0 px (setSource name (createStrict 1 1))"

definition getWhiteTexture :: "world \<Rightarrow> texture_pointer \<times> world" where
  "getWhiteTexture w =
     (if whiteTexture (cache w) = None then
        (let (a, w1) = newTexture (constantTexture ''TextureCache::_whiteTexture'' OPAQUE_WHITE) w
         in (Some a, w1\<lparr>cache := (cache w1)\<lparr>whiteTexture := Some a\<rparr>\<rparr>))
      else (whiteTexture (cache w), w))"

definition getGrayTexture :: "world \<Rightarrow> texture_pointer \<times> world" where
  "getGrayTexture w =
     (if grayTexture (cache w) = None then
        (let (a, w1) = newTexture (constantTexture ''TextureCache::_grayTexture'' OPAQUE_GRAY) w
         in (Some a, w1\<lparr>cache := (cache w1)\<lparr>grayTexture := Some a\<rparr>\<rparr>))
      else (grayTexture (cache w), w))"

definition getBlueTexture :: "world \<Rightarrow> texture_pointer \<times> world" where
  "getBlueTexture w =
     (if blueTexture (cache w) = None then
        (let (a, w1) = newTexture (constantTexture ''TextureCache::_blueTexture'' OPAQUE_BLUE) w
         in (Some a, w1\<lparr>cache := (cache w1)\<lparr>blueTexture := Some a\<rparr>\<rparr>))
      else (blueTexture (cache w), w))"

definition getBlackTexture :: "world \<Rightarrow> texture_pointer \<times> world" where
  "getBlackTexture w =
     (if blackTexture (cache w) = None then
        (let (a, w1) = newTexture (constantTexture ''TextureCache::_blackTexture'' OPAQUE_BLACK) w
         in (Some a, w1\<lparr>cache := (cache w1)\<lparr>blackTexture := Some a\<rparr>\<rparr>))
      else (blackTexture (cache w), w))"

text \<open>\<open>getFallbackTextureForType\<close> (lines 220-255).\<close>

definition getFallbackTextureForType :: "texture_type \<Rightarrow> world \<Rightarrow> texture_pointer \<times> world" where
  "getFallbackTextureForType ty w =
     (if \<not> cacheLive w then (None, w)
      else (case ty of
          DEFAULT_TEXTURE \<Rightarrow> getWhiteTexture w
        | ALBEDO_TEXTURE \<Rightarrow> getWhiteTexture w
        | ROUGHNESS_TEXTURE \<Rightarrow> getWhiteTexture w
        | OCCLUSION_TEXTURE \<Rightarrow> getWhiteTexture w
        | NORMAL_TEXTURE \<Rightarrow> getBlueTexture w
        | EMISSIVE_TEXTURE \<Rightarrow> getBlackTexture w
        | LIGHTMAP_TEXTURE \<Rightarrow> getBlackTexture w
        | BUMP_TEXTURE \<Rightarrow> (None, w)
        | SPECULAR_TEXTURE \<Rightarrow> (None, w)
        | GLOSS_TEXTURE \<Rightarrow> (None, w)
        | CUBE_TEXTURE \<Rightarrow> (None, w)
        | CUSTOM_TEXTURE \<Rightarrow> (None, w)
        | STRICT_TEXTURE \<Rightarrow> (None, w)))"

text \<open>A 1x1 texture whose one RGBA texel is \<open>px\<close>; opaque when the alpha byte is 0xFF.\<close>

definition isConstant :: "byte list \<Rightarrow> gpu_texture \<Rightarrow> bool" where
  "isConstant px t \<longleftrightarrow> texWidth t = 1 \<and> texHeight t = 1 \<and> storedMip t 0 = Some px"

definition opaque :: "byte list \<Rightarrow> bool" where
  "opaque px \<longleftrightarrow> length px = 4 \<and> px ! 3 = 0xFF"

text \<open>The constants already built are the objects their getters built, at addresses
  already handed out.\<close>

definition constantAt :: "world \<Rightarrow> texture_pointer \<Rightarrow> byte list \<Rightarrow> bool" where
  "constantAt w p px =
     (case p of None \<Rightarrow> True | Some a \<Rightarrow> a < nextAddr w \<and> isConstant px (textures w a))"

definition constantsBuilt :: "world \<Rightarrow> bool" where
  "constantsBuilt w \<longleftrightarrow>
     constantAt w (whiteTexture (cache w)) OPAQUE_WHITE \<and>
     constantAt w (grayTexture (cache w)) OPAQUE_GRAY \<and>
     constantAt w (blueTexture (cache w)) OPAQUE_BLUE \<and>
     constantAt w (blackTexture (cache w)) OPAQUE_BLACK"

text \<open>What a getter returns is a non-null pointer to a 1x1 texture with texel \<open>px\<close>.\<close>

definition returnsConstant :: "byte list \<Rightarrow> texture_pointer \<times> world \<Rightarrow> bool" where
  "returnsConstant px r =
     (case fst r of None \<Rightarrow> False | Some a \<Rightarrow> isConstant px (textures (snd r) a))"

section \<open>The registry of the cache in the state\<close>

definition TextureCache_getTextureByHash :: "hash \<Rightarrow> world \<Rightarrow> texture_pointer \<times> world" where
  "TextureCache_getTextureByHash h w =
     (let (result, m) = getTextureByHash (live w) h (texturesByHashes (cache w))
      in (result, w\<lparr>cache := (cache w)\<lparr>texturesByHashes := m\<rparr>\<rparr>))"

definition TextureCache_cacheTextureByHash ::
  "hash \<Rightarrow> texture_pointer \<Rightarrow> world \<Rightarrow> texture_pointer \<times> world" where
  "TextureCache_cacheTextureByHash h texture w =
     (let (result, m) = cacheTextureByHash (live w) h texture (texturesByHashes (cache w))
      in (result, w\<lparr>cache := (cache w)\<lparr>texturesByHashes := m\<rparr>\<rparr>))"

text \<open>Modelled from the spec: \<open>KTXCache::writeFile\<close> and \<open>getFile\<close> belong to the file
  cache, which is not in this file. Section 4.5: \<open>write\<close> stores the bytes under the
  content key and gives a handle, or fails; \<open>get\<close> locates an existing entry.\<close>

definition writeFile ::
  "env \<Rightarrow> byte list \<Rightarrow> hash \<Rightarrow> world \<Rightarrow> byte list option \<times> world" where
  "writeFile e data h w =
     (if writeSucceeds e h data
      then (Some data, w\<lparr>cache := (cache w)\<lparr>ktxCache := (ktxCache (cache w))(h \<mapsto> data)\<rparr>\<rparr>)
      else (None, w))"

definition getFile :: "hash \<Rightarrow> world \<Rightarrow> byte list option" where
  "getFile h w = ktxCache (cache w) h"

section \<open>NetworkTexture\<close>

text \<open>Modelled from the spec: \<open>Resource::finishedLoading\<close> belongs to the base class,
  which is not in this file. Section 4.3: \<open>Ready\<close> is the terminal success state (the
  \<open>_loaded\<close> flag, which the constructor of line 346 sets itself), \<open>Failed\<close> the terminal
  failure state.\<close>

definition finishedLoading :: "bool \<Rightarrow> network_texture \<Rightarrow> network_texture" where
  "finishedLoading success r = (if success then r\<lparr>loaded := True\<rparr> else r\<lparr>failedToLoad := True\<rparr>)"

datatype resource_state = Loading | Ready | Failed

definition stateOf :: "network_texture \<Rightarrow> resource_state" where
  "stateOf r = (if failedToLoad r then Failed else if loaded r then Ready else Loading)"

definition updResource :: "res_id \<Rightarrow> (network_texture \<Rightarrow> network_texture) \<Rightarrow> world \<Rightarrow> world" where
  "updResource self f w =
     (case resources w self of None \<Rightarrow> w
      | Some r \<Rightarrow> w\<lparr>resources := (resources w)(self \<mapsto> f r)\<rparr>)"

text \<open>The constructor (lines 338-354); the flags and sizes start as the base class leaves
  them, not loaded and zero.\<close>

definition NetworkTexture ::
  "res_id \<Rightarrow> qurl \<Rightarrow> texture_type \<Rightarrow> byte list \<Rightarrow> int \<Rightarrow> world \<Rightarrow> world" where
  "NetworkTexture self u ty content maxNumPixels' w =
     (let r0 = \<lparr>url = u, textureType = ty, maxNumPixels = maxNumPixels',
                textureLoader = None, loaded = False, failedToLoad = False,
                startedLoading = False, originalWidth = 0, originalHeight = 0,
                width = 0, height = 0, bytes = 0, textureSource = None, ktxFile = None\<rparr>;
          r1 = (if \<not> urlValid u then r0\<lparr>loaded := True\<rparr> else r0)
      in if content \<noteq> []
         then w\<lparr>resources := (resources w)(self \<mapsto> r1\<lparr>startedLoading := True\<rparr>),
                eventQueue := eventQueue w @ [LoadContent self content]\<rparr>
         else w\<lparr>resources := (resources w)(self \<mapsto> r1)\<rparr>)"

text \<open>\<open>getTextureLoaderForType\<close> (lines 258-319); \<open>None\<close> is the empty
  \<open>TextureLoaderFunc\<close> that the custom case returns after its \<open>Q_ASSERT(false)\<close>. The
  second argument is \<open>options.value("generateIrradiance", true).toBool()\<close>.\<close>

definition getTextureLoaderForType :: "texture_type \<Rightarrow> bool \<Rightarrow> texture_loader option" where
  "getTextureLoaderForType ty generateIrradiance =
     (case ty of
        ALBEDO_TEXTURE \<Rightarrow> Some createAlbedoTextureFromImage
      | EMISSIVE_TEXTURE \<Rightarrow> Some createEmissiveTextureFromImage
      | LIGHTMAP_TEXTURE \<Rightarrow> Some createLightmapTextureFromImage
      | CUBE_TEXTURE \<Rightarrow>
          (if generateIrradiance then Some createCubeTextureFromImage
           else Some createCubeTextureFromImageWithoutIrradiance)
      | BUMP_TEXTURE \<Rightarrow> Some createNormalTextureFromBumpImage
      | NORMAL_TEXTURE \<Rightarrow> Some createNormalTextureFromNormalImage
      | ROUGHNESS_TEXTURE \<Rightarrow> Some createRoughnessTextureFromImage
      | GLOSS_TEXTURE \<Rightarrow> Some createRoughnessTextureFromGlossImage
      | SPECULAR_TEXTURE \<Rightarrow> Some createMetallicTextureFromImage
      | STRICT_TEXTURE \<Rightarrow> Some createStrict2DTextureFromImage
      | CUSTOM_TEXTURE \<Rightarrow> None
      | DEFAULT_TEXTURE \<Rightarrow> Some create2DTextureFromImage
      | OCCLUSION_TEXTURE \<Rightarrow> Some create2DTextureFromImage)"

text \<open>\<open>NetworkTexture::getTextureLoader\<close> (lines 356-361).\<close>

definition getTextureLoader :: "network_texture \<Rightarrow> texture_loader option" where
  "getTextureLoader r =
     (if textureType r = CUSTOM_TEXTURE then textureLoader r
      else getTextureLoaderForType (textureType r) True)"

text \<open>\<open>NetworkTexture::getFallbackTexture\<close> (lines 386-391).\<close>

definition getFallbackTexture :: "network_texture \<Rightarrow> world \<Rightarrow> texture_pointer \<times> world" where
  "getFallbackTexture r w =
     (if textureType r = CUSTOM_TEXTURE then (None, w)
      else getFallbackTextureForType (textureType r) w)"

text \<open>\<open>NetworkTexture::setImage\<close> (lines 363-384), called on the resource \<open>self\<close>.\<close>

definition setImage ::
  "env \<Rightarrow> res_id \<Rightarrow> texture_pointer \<Rightarrow> int \<Rightarrow> int \<Rightarrow> world \<Rightarrow> world" where
  "setImage e self texture originalWidth' originalHeight' w =
     (let w1 = updResource self
                 (\<lambda>r. r\<lparr>originalWidth := originalWidth', originalHeight := originalHeight',
                        textureSource := texture\<rparr>) w;
          w2 = (case texture of
                  Some a \<Rightarrow>
                    updResource self
                      (\<lambda>r. r\<lparr>width := texWidth (textures w1 a),
                             height := texHeight (textures w1 a),
                             bytes := getStoredSize e (textures w1 a)\<rparr>) w1
                | None \<Rightarrow> updResource self (\<lambda>r. r\<lparr>width := 0, height := 0\<rparr>) w1);
          w3 = updResource self (finishedLoading True) w2
      in w3\<lparr>emitted := emitted w3 @ [networkTextureCreated self]\<rparr>)"

text \<open>\<open>QThreadPool::globalInstance()->start(new ImageReader(...))\<close> (line 463).\<close>

definition startImageReader :: "res_id \<Rightarrow> network_texture \<Rightarrow> byte list \<Rightarrow> hash \<Rightarrow> world \<Rightarrow> world" where
  "startImageReader self r content h w =
     w\<lparr>threadPool := threadPool w @
          [\<lparr>taskResource = self, taskUrl = url r, taskContent = content, taskHash = h,
            taskMaxNumPixels = maxNumPixels r\<rparr>]\<rparr>"

text \<open>The disk-cache branch of \<open>loadContent\<close> (lines 439-451), entered with a null
  \<open>texture\<close>.\<close>

definition loadFromKtxCache :: "env \<Rightarrow> hash \<Rightarrow> world \<Rightarrow> texture_pointer \<times> world" where
  "loadFromKtxCache e h w =
     (case getFile h w of None \<Rightarrow> (None, w)
      | Some ktxFile' \<Rightarrow>
         (case getKTX e ktxFile' of None \<Rightarrow> (None, w)
          | Some ktx' \<Rightarrow>
             (let (texture, w1) = reset (unserialize e ktx') w
              in case texture of None \<Rightarrow> (None, w1)
                 | Some a \<Rightarrow>
                    (let w2 = updTexture a (setKtxBacking ktx') w1;
                         (result, w3) = TextureCache_cacheTextureByHash h texture w2
                     in (result, reassign texture result w3)))))"

text \<open>\<open>NetworkTexture::loadContent\<close> (lines 422-464), called on the resource \<open>self\<close>.\<close>

definition loadContent :: "env \<Rightarrow> res_id \<Rightarrow> byte list \<Rightarrow> world \<Rightarrow> world" where
  "loadContent e self content w =
     (case resources w self of None \<Rightarrow> w
      | Some r \<Rightarrow>
         (let h = md5 e content in
          if cacheLive w then
            (let (texture, w1) = TextureCache_getTextureByHash h w;
                 (texture', w2) = (if texture = None then loadFromKtxCache e h w1
                                   else (texture, w1))
             in case texture' of
                  Some a \<Rightarrow>
                    setImage e self texture' (texWidth (textures w2 a)) (texHeight (textures w2 a)) w2
                | None \<Rightarrow> startImageReader self r content h w2)
          else startImageReader self r content h w))"

text \<open>A posted call runs when the receiving resource still exists; it is dropped
  otherwise. \<open>processEvents\<close> runs the calls posted so far, in order.\<close>

fun dispatch :: "env \<Rightarrow> invocation \<Rightarrow> world \<Rightarrow> world" where
  "dispatch e (LoadContent self content) w =
     (if resources w self = None then w else loadContent e self content w)"
| "dispatch e (SetImage self texture ow oh) w =
     (if resources w self = None then w else setImage e self texture ow oh w)"

definition processEvents :: "env \<Rightarrow> world \<Rightarrow> world" where
  "processEvents e w = fold (dispatch e) (eventQueue w) (w\<lparr>eventQueue := []\<rparr>)"


section \<open>The decode task\<close>

text \<open>\<open>filename.substr(filename.find_last_of('.') + 1)\<close> (line 528): what follows the last
  dot, and the whole name when it has no dot (\<open>npos + 1\<close> is 0).\<close>

definition filenameExtension :: "string \<Rightarrow> string" where
  "filenameExtension filename = rev (takeWhile (\<lambda>c. c \<noteq> CHR ''.'') (rev filename))"

text \<open>The validation of line 534.\<close>

definition failedToParse :: "qimage \<Rightarrow> bool" where
  "failedToParse img \<longleftrightarrow>
     imgWidth img = 0 \<or> imgHeight img = 0 \<or> imgFormat img = Format_Invalid"

text \<open>\<open>imageWidth * imageHeight\<close> (line 541) multiplies two \<open>int\<close>s, which are 32 bits
  wide: the product wraps around, as the compiled code does.\<close>

definition mulInt32 :: "int \<Rightarrow> int \<Rightarrow> int" where
  "mulInt32 a b = sint ((word_of_int a :: 32 word) * word_of_int b)"

text \<open>The budget check (lines 540-552): the image and the \<open>imageWidth\<close>, \<open>imageHeight\<close>
  that go on.\<close>

definition downscale :: "env \<Rightarrow> int \<Rightarrow> qimage \<Rightarrow> qimage \<times> int \<times> int" where
  "downscale e maxNumPixels' img =
     (let imageWidth = imgWidth img; imageHeight = imgHeight img
      in if mulInt32 imageWidth imageHeight > maxNumPixels'
         then (let (newWidth, newHeight) = downscaledSize e maxNumPixels' imageWidth imageHeight
               in (scaled e img newWidth newHeight, newWidth, newHeight))
         else (img, imageWidth, imageHeight))"

text \<open>For comparison, the size that the formula of lines 542-546 gives in exact
  arithmetic: \<open>scale = sqrt (B / (w * h))\<close>, each side rounded to the nearest integer on
  its own.\<close>

definition exactDownscaledSize :: "int \<Rightarrow> int \<Rightarrow> int \<Rightarrow> int \<times> int" where
  "exactDownscaledSize b w h =
     (\<lfloor>sqrt (real_of_int b / real_of_int (w * h)) * real_of_int w + 1 / 2\<rfloor>,
      \<lfloor>sqrt (real_of_int b / real_of_int (w * h)) * real_of_int h + 1 / 2\<rfloor>)"

text \<open>Lines 566-568: the loader of the resource is called, \<open>texture\<close> takes what it
  returns, and \<open>texture->setSource(url)\<close> dereferences it. Calling an empty
  \<open>std::function\<close> throws.\<close>

definition loadImageTexture ::
  "env \<Rightarrow> network_texture \<Rightarrow> qimage \<Rightarrow> string \<Rightarrow> world \<Rightarrow> crash + (texture_pointer \<times> world)" where
  "loadImageTexture e networkTexture img u w =
     (case getTextureLoader networkTexture of None \<Rightarrow> Inl BadFunctionCall
      | Some loader \<Rightarrow>
         (let (texture, w1) = reset (runLoader e loader img u) w
          in case texture of None \<Rightarrow> Inl NullPointerDereference
             | Some a \<Rightarrow> Inr (texture, updTexture a (setSource u) w1)))"

text \<open>Lines 569-571: \<open>if (texture) texture->setFallbackTexture(...)\<close>.\<close>

definition attachFallback :: "network_texture \<Rightarrow> texture_pointer \<Rightarrow> world \<Rightarrow> world" where
  "attachFallback networkTexture texture w =
     (case texture of None \<Rightarrow> w
      | Some a \<Rightarrow>
         (let (fb, w1) = getFallbackTexture networkTexture w
          in updTexture a (setFallbackTexture fb) w1))"

text \<open>Lines 573-594: serialize \<open>*texture\<close> and write the result to the file cache.\<close>

definition saveKtx :: "env \<Rightarrow> image_reader \<Rightarrow> texture_pointer \<Rightarrow> world \<Rightarrow> crash + world" where
  "saveKtx e t texture w =
     (case texture of None \<Rightarrow> Inl NullPointerDereference
      | Some a \<Rightarrow>
         (case serialize e (textures w a) of None \<Rightarrow> Inr w
          | Some memKtx \<Rightarrow>
             if cacheLive w then
               (let (file', w1) = writeFile e memKtx (taskHash t) w
                in case file' of None \<Rightarrow> Inr w1
                   | Some f \<Rightarrow>
                      (let w2 = updResource (taskResource t) (\<lambda>r. r\<lparr>ktxFile := Some f\<rparr>) w1
                       in case getKTX e f of None \<Rightarrow> Inr w2
                          | Some fileKtx \<Rightarrow> Inr (updTexture a (setKtxBacking fileKtx) w2)))
             else Inr w))"

text \<open>Lines 599-601: the texture is replaced by the one the cache holds for the hash.\<close>

definition reconcile :: "image_reader \<Rightarrow> texture_pointer \<Rightarrow> world \<Rightarrow> texture_pointer \<times> world" where
  "reconcile t texture w =
     (if cacheLive w then
        (let (result, w1) = TextureCache_cacheTextureByHash (taskHash t) texture w
         in (result, reassign texture result w1))
      else (texture, w))"

text \<open>\<open>ImageReader::read\<close> up to the end of its block (lines 524-602). \<open>None\<close> is one of
  the two early returns; otherwise the local \<open>texture\<close> of line 554, \<open>imageWidth\<close> and
  \<open>imageHeight\<close> go on to the delivery. With the texture goes whether the local variable
  is its only owner: it is for the texture the task made itself, and it is not for a
  texture adopted from the registry, which was live through its other owners.\<close>

definition decode ::
  "env \<Rightarrow> image_reader \<Rightarrow> world \<Rightarrow>
     crash + ((texture_pointer \<times> bool \<times> int \<times> int) option \<times> world)" where
  "decode e t w =
     (let img = fromData e (taskContent t) (filenameExtension (urlFileName (taskUrl t)))
      in if failedToParse img then Inr (None, w)
         else
          (let (img', imageWidth, imageHeight) = downscale e (taskMaxNumPixels t) img
           in case resources w (taskResource t) of None \<Rightarrow> Inr (None, w)
              | Some networkTexture \<Rightarrow>
                 (case loadImageTexture e networkTexture img' (urlString (taskUrl t)) w of
                    Inl c \<Rightarrow> Inl c
                  | Inr (texture, w1) \<Rightarrow>
                     (let w2 = attachFallback networkTexture texture w1
                      in case saveKtx e t texture w2 of
                           Inl c \<Rightarrow> Inl c
                         | Inr w3 \<Rightarrow>
                            (let (texture', w4) = reconcile t texture w3
                             in Inr (Some (texture', texture' = texture,
                                           imageWidth, imageHeight), w4))))))"

text \<open>The delivery and the return (lines 604-612). When the weak reference still locks,
  \<open>setImage\<close> is posted to the resource, and the posted call holds a copy of the
  texture pointer. When it does not, nothing is posted and the local \<open>texture\<close> goes out
  of scope with no copy made: a texture it was the only owner of is destroyed, so
  the weak pointer the registry holds for it expires.\<close>

definition deliver ::
  "image_reader \<Rightarrow> texture_pointer \<times> bool \<times> int \<times> int \<Rightarrow> world \<Rightarrow> world" where
  "deliver t d w =
     (case d of (texture, onlyOwner, imageWidth, imageHeight) \<Rightarrow>
        (case resources w (taskResource t) of
           None \<Rightarrow> if onlyOwner then reassign texture None w else w
         | Some r \<Rightarrow>
            w\<lparr>eventQueue := eventQueue w @
                 [SetImage (taskResource t) texture imageWidth imageHeight]\<rparr>))"

text \<open>\<open>ImageReader::read\<close>, with what the other threads do between the end of the block,
  where the task gives up its strong reference to the resource, and the second
  \<open>_resource.lock()\<close>.\<close>

definition readAmong ::
  "(world \<Rightarrow> world) \<Rightarrow> env \<Rightarrow> image_reader \<Rightarrow> world \<Rightarrow> crash + world" where
  "readAmong others e t w =
     (case decode e t w of Inl c \<Rightarrow> Inl c
      | Inr (None, w1) \<Rightarrow> Inr w1
      | Inr (Some d, w1) \<Rightarrow> Inr (deliver t d (others w1)))"

definition read :: "env \<Rightarrow> image_reader \<Rightarrow> world \<Rightarrow> crash + world" where
  "read e t w = readAmong (\<lambda>w. w) e t w"

text \<open>\<open>Reader::run\<close> (lines 471-489).\<close>

definition runAmong ::
  "(world \<Rightarrow> world) \<Rightarrow> env \<Rightarrow> image_reader \<Rightarrow> world \<Rightarrow> crash + world" where
  "runAmong others e t w =
     (if resources w (taskResource t) = None then Inr w else readAmong others e t w)"

definition run :: "env \<Rightarrow> image_reader \<Rightarrow> world \<Rightarrow> crash + world" where
  "run e t w = runAmong (\<lambda>w. w) e t w"

section \<open>A small world to run the definitions in\<close>

definition emptyCache :: texture_cache where
  "emptyCache =
     \<lparr>texturesByHashes = Map.empty, ktxCache = Map.empty, whiteTexture = None,
      grayTexture = None, blueTexture = None, blackTexture = None\<rparr>"

definition startWorld :: world where
  "startWorld =
     \<lparr>textures = (\<lambda>a. createStrict 0 0), live = (\<lambda>a. False), nextAddr = 0,
      cache = emptyCache, cacheLive = True, resources = Map.empty, eventQueue = [],
      threadPool = [], emitted = []\<rparr>"

text \<open>Collaborators for the examples: a buffer parses as a 4x2 image unless it is empty,
  every loader makes a texture of the image's size, nothing is scaled, and
  serialization and disk writes work.\<close>

definition exampleEnv :: env where
  "exampleEnv =
     \<lparr>md5 = (\<lambda>bs. map (\<lambda>b. if b = 0 then CHR ''0'' else CHR ''1'') bs),
      fromData = (\<lambda>bs ext. if bs = []
                    then \<lparr>imgWidth = 0, imgHeight = 0, imgFormat = Format_Invalid\<rparr>
                    else \<lparr>imgWidth = 4, imgHeight = 2, imgFormat = Format_Valid 0\<rparr>),
      downscaledSize = (\<lambda>b w h. (w, h)),
      scaled = (\<lambda>i w h. i\<lparr>imgWidth := w, imgHeight := h\<rparr>),
      runLoader = (\<lambda>l i u. Some ((createStrict (imgWidth i) (imgHeight i))\<lparr>source := u\<rparr>)),
      getStoredSize = (\<lambda>t. 0),
      serialize = (\<lambda>t. Some []),
      unserialize = (\<lambda>k. Some (createStrict 4 2)),
      getKTX = (\<lambda>bs. Some bs),
      writeSucceeds = (\<lambda>h bs. True)\<rparr>"

definition exampleUrl :: qurl where
  "exampleUrl = \<lparr>urlValid = True, urlString = ''http://a/b.png'', urlFileName = ''b.png''\<rparr>"

definition invalidUrl :: qurl where
  "invalidUrl = \<lparr>urlValid = False, urlString = [], urlFileName = []\<rparr>"

text \<open>Resource 0 has a valid URL and no inline content; its download then delivered a
  zero-length buffer, which \<open>loadContent\<close> hashed, found in neither cache and handed to
  an \<open>ImageReader\<close>, here \<open>emptyTask\<close>.\<close>

definition loadingWorld :: world where
  "loadingWorld =
     loadContent exampleEnv 0 [] (NetworkTexture 0 exampleUrl DEFAULT_TEXTURE [] 100 startWorld)"

definition emptyTask :: image_reader where
  "emptyTask =
     \<lparr>taskResource = 0, taskUrl = exampleUrl, taskContent = [], taskHash = [],
      taskMaxNumPixels = 100\<rparr>"

text \<open>Resource 0 has a valid URL and no inline content yet; \<open>pixelTask\<close> is the
  \<open>ImageReader\<close> that \<open>loadContent\<close> starts for it on the one-byte content \<open>[1]\<close>.\<close>

definition requestWorld :: world where
  "requestWorld = NetworkTexture 0 exampleUrl ALBEDO_TEXTURE [] 100 startWorld"

definition pixelTask :: image_reader where
  "pixelTask =
     \<lparr>taskResource = 0, taskUrl = exampleUrl, taskContent = [1], taskHash = ''1'',
      taskMaxNumPixels = 100\<rparr>"

text \<open>The disk cache already holds an entry under the hash of \<open>[1]\<close>; or a live texture
  is already registered under it.\<close>

definition diskWorld :: world where
  "diskWorld = snd (writeFile exampleEnv [5] ''1'' requestWorld)"

definition liveWorld :: world where
  "liveWorld =
     snd (TextureCache_cacheTextureByHash ''1'' (Some 0)
            (snd (newTexture (createStrict 4 2) requestWorld)))"

text \<open>Collaborators that fail: serialization, the disk write, the loader (it returns
  null), and the texture step of deserialization.\<close>

definition noSerializeEnv :: env where
  "noSerializeEnv = exampleEnv\<lparr>serialize := (\<lambda>t. None)\<rparr>"

definition diskFullEnv :: env where
  "diskFullEnv = exampleEnv\<lparr>writeSucceeds := (\<lambda>h bs. False)\<rparr>"

definition nullLoaderEnv :: env where
  "nullLoaderEnv = exampleEnv\<lparr>runLoader := (\<lambda>l i u. None)\<rparr>"

definition corruptEnv :: env where
  "corruptEnv = exampleEnv\<lparr>unserialize := (\<lambda>k. None)\<rparr>"

section \<open>Properties\<close>

lemma holder_eq: "holder lv m h = (case m h of None \<Rightarrow> None | Some wp \<Rightarrow> lock lv wp)"
  by (simp add: holder_def getTextureByHash_def subscript_def lock_def split: option.splits)

text \<open>
  C1. \<open>cacheTextureByHash h t\<close>: when the registry has no live holder for \<open>h\<close> (no entry, an
  empty one, or one whose texture has no owner left) it installs \<open>t\<close> and returns \<open>t\<close>;
  when it has a live holder it returns that holder and leaves the registry as it was,
  so \<open>t\<close> is discarded. Either way the holder for \<open>h\<close> afterwards is the texture
  returned, and the holder for every other hash is the one before: one texture per hash.
  The candidate is a shared pointer, so a non-null candidate is live.
\<close>

theorem cacheTextureByHash_insertOrAdopt:
  assumes "\<forall>a. t = Some a \<longrightarrow> lv a"
  shows "(holder lv m h = None \<longrightarrow>
            cacheTextureByHash lv h t m = (t, m(h \<mapsto> t)))
       \<and> (\<forall>e. holder lv m h = Some e \<longrightarrow>
            cacheTextureByHash lv h t m = (Some e, m))
       \<and> holder lv (snd (cacheTextureByHash lv h t m)) h = fst (cacheTextureByHash lv h t m)
       \<and> (\<forall>h'. h' \<noteq> h \<longrightarrow>
            holder lv (snd (cacheTextureByHash lv h t m)) h' = holder lv m h')"
  using assms
  by (auto simp: holder_eq cacheTextureByHash_def subscript_def lock_def
           split: option.splits if_splits)

theorem cacheTextureByHash_insertOrAdopt_witness:
  "holder (\<lambda>a. a = 7) [''h'' \<mapsto> Some 3] ''h'' = None
   \<and> cacheTextureByHash (\<lambda>a. a = 7) ''h'' (Some 7) [''h'' \<mapsto> Some 3]
       = (Some 7, [''h'' \<mapsto> Some 7])
   \<and> holder (\<lambda>a. a = 3 \<or> a = 7) [''h'' \<mapsto> Some 3] ''h'' = Some 3
   \<and> cacheTextureByHash (\<lambda>a. a = 3 \<or> a = 7) ''h'' (Some 7) [''h'' \<mapsto> Some 3]
       = (Some 3, [''h'' \<mapsto> Some 3])"
  using cacheTextureByHash_insertOrAdopt [of "Some 7" "\<lambda>a. a = 7" "[''h'' \<mapsto> Some 3]" "''h''"]
        cacheTextureByHash_insertOrAdopt [of "Some 7" "\<lambda>a. a = 3 \<or> a = 7" "[''h'' \<mapsto> Some 3]" "''h''"]
  by (simp add: holder_eq lock_def)

subsection \<open>The fallback table\<close>

lemma isConstant_constantTexture: "isConstant px (constantTexture name px)"
  by (simp add: isConstant_def constantTexture_def assignStoredMip_def setSource_def createStrict_def)

lemma getWhiteTexture_constant:
  "constantsBuilt w \<Longrightarrow> returnsConstant OPAQUE_WHITE (getWhiteTexture w)
     \<and> getWhiteTexture (snd (getWhiteTexture w)) = getWhiteTexture w"
  by (auto simp: getWhiteTexture_def newTexture_def returnsConstant_def constantsBuilt_def
      constantAt_def isConstant_constantTexture split: option.splits)

lemma getBlueTexture_constant:
  "constantsBuilt w \<Longrightarrow> returnsConstant OPAQUE_BLUE (getBlueTexture w)
     \<and> getBlueTexture (snd (getBlueTexture w)) = getBlueTexture w"
  by (auto simp: getBlueTexture_def newTexture_def returnsConstant_def constantsBuilt_def
      constantAt_def isConstant_constantTexture split: option.splits)

lemma getBlackTexture_constant:
  "constantsBuilt w \<Longrightarrow> returnsConstant OPAQUE_BLACK (getBlackTexture w)
     \<and> getBlackTexture (snd (getBlackTexture w)) = getBlackTexture w"
  by (auto simp: getBlackTexture_def newTexture_def returnsConstant_def constantsBuilt_def
      constantAt_def isConstant_constantTexture split: option.splits)

lemma cacheLive_getters:
  "cacheLive (snd (getWhiteTexture w)) = cacheLive w"
  "cacheLive (snd (getBlueTexture w)) = cacheLive w"
  "cacheLive (snd (getBlackTexture w)) = cacheLive w"
  by (simp_all add: getWhiteTexture_def getBlueTexture_def getBlackTexture_def newTexture_def)

lemma startWorld_built: "cacheLive startWorld \<and> constantsBuilt startWorld"
  by (simp add: startWorld_def constantsBuilt_def constantAt_def emptyCache_def)

text \<open>
  C2, as the code has it. While the texture cache exists, the fallback lookup gives the
  white constant for DEFAULT, ALBEDO, ROUGHNESS and OCCLUSION, the blue constant for
  NORMAL, the black constant for EMISSIVE and LIGHTMAP, and a null pointer, leaving the
  state as it was, for BUMP, SPECULAR, GLOSS, CUBE, STRICT and CUSTOM. Each constant is
  a 1x1 texture whose texel has alpha 0xFF, and asking again gives the same answer and
  changes nothing more.
\<close>

theorem getFallbackTextureForType_table:
  assumes "cacheLive w" and "constantsBuilt w"
  shows "(ty \<in> {DEFAULT_TEXTURE, ALBEDO_TEXTURE, ROUGHNESS_TEXTURE, OCCLUSION_TEXTURE} \<longrightarrow>
            getFallbackTextureForType ty w = getWhiteTexture w
          \<and> returnsConstant OPAQUE_WHITE (getWhiteTexture w))
       \<and> (ty = NORMAL_TEXTURE \<longrightarrow>
            getFallbackTextureForType ty w = getBlueTexture w
          \<and> returnsConstant OPAQUE_BLUE (getBlueTexture w))
       \<and> (ty \<in> {EMISSIVE_TEXTURE, LIGHTMAP_TEXTURE} \<longrightarrow>
            getFallbackTextureForType ty w = getBlackTexture w
          \<and> returnsConstant OPAQUE_BLACK (getBlackTexture w))
       \<and> (ty \<in> {BUMP_TEXTURE, SPECULAR_TEXTURE, GLOSS_TEXTURE, CUBE_TEXTURE,
                 STRICT_TEXTURE, CUSTOM_TEXTURE} \<longrightarrow>
            getFallbackTextureForType ty w = (None, w))
       \<and> getFallbackTextureForType ty (snd (getFallbackTextureForType ty w))
            = getFallbackTextureForType ty w
       \<and> opaque OPAQUE_WHITE \<and> opaque OPAQUE_BLUE \<and> opaque OPAQUE_BLACK"
proof -
  have tab: "getFallbackTextureForType ty w =
      (case ty of DEFAULT_TEXTURE \<Rightarrow> getWhiteTexture w | ALBEDO_TEXTURE \<Rightarrow> getWhiteTexture w
        | ROUGHNESS_TEXTURE \<Rightarrow> getWhiteTexture w | OCCLUSION_TEXTURE \<Rightarrow> getWhiteTexture w
        | NORMAL_TEXTURE \<Rightarrow> getBlueTexture w | EMISSIVE_TEXTURE \<Rightarrow> getBlackTexture w
        | LIGHTMAP_TEXTURE \<Rightarrow> getBlackTexture w | _ \<Rightarrow> (None, w))"
    using assms(1) by (cases ty) (simp_all add: getFallbackTextureForType_def)
  have again: "getFallbackTextureForType ty (snd (getFallbackTextureForType ty w))
            = getFallbackTextureForType ty w"
    using assms getWhiteTexture_constant [of w] getBlueTexture_constant [of w]
      getBlackTexture_constant [of w]
    by (cases ty) (simp_all add: getFallbackTextureForType_def cacheLive_getters)
  have op: "opaque OPAQUE_WHITE \<and> opaque OPAQUE_BLUE \<and> opaque OPAQUE_BLACK"
    by (simp add: opaque_def OPAQUE_WHITE_def OPAQUE_BLUE_def OPAQUE_BLACK_def)
  show ?thesis
    using assms(2) tab again op getWhiteTexture_constant [of w] getBlueTexture_constant [of w]
      getBlackTexture_constant [of w]
    by (cases ty) simp_all
qed

theorem getFallbackTextureForType_table_witness:
  "cacheLive startWorld \<and> constantsBuilt startWorld
   \<and> getFallbackTextureForType ALBEDO_TEXTURE startWorld = getWhiteTexture startWorld
   \<and> returnsConstant OPAQUE_WHITE (getWhiteTexture startWorld)
   \<and> getFallbackTextureForType NORMAL_TEXTURE startWorld = getBlueTexture startWorld
   \<and> returnsConstant OPAQUE_BLUE (getBlueTexture startWorld)
   \<and> getFallbackTextureForType LIGHTMAP_TEXTURE startWorld = getBlackTexture startWorld
   \<and> returnsConstant OPAQUE_BLACK (getBlackTexture startWorld)
   \<and> getFallbackTextureForType CUBE_TEXTURE startWorld = (None, startWorld)"
  using getFallbackTextureForType_table [of startWorld ALBEDO_TEXTURE]
        getFallbackTextureForType_table [of startWorld NORMAL_TEXTURE]
        getFallbackTextureForType_table [of startWorld LIGHTMAP_TEXTURE]
        getFallbackTextureForType_table [of startWorld CUBE_TEXTURE]
        startWorld_built
  by simp

text \<open>The lookup for BUMP gives a null pointer, which is not the white constant.\<close>

theorem fallback_bump_not_white:
  "fst (getFallbackTextureForType BUMP_TEXTURE startWorld) = None
   \<and> fst (getWhiteTexture startWorld) = Some 0"
  by (simp add: getFallbackTextureForType_def startWorld_def getWhiteTexture_def
      newTexture_def emptyCache_def)

subsection \<open>Frames of the steps\<close>

lemma cacheTextureByHash_holder:
  "(\<And>a. t = Some a \<Longrightarrow> lv a) \<Longrightarrow>
   holder lv (snd (cacheTextureByHash lv h t m)) h = fst (cacheTextureByHash lv h t m)"
  by (auto simp: holder_eq cacheTextureByHash_def subscript_def lock_def
           split: option.splits if_splits)

lemma getFallbackTexture_frame:
  assumes "getFallbackTexture nt w = (fb, w')"
  shows "cacheLive w' = cacheLive w" "eventQueue w' = eventQueue w"
    "resources w' = resources w" "threadPool w' = threadPool w" "emitted w' = emitted w"
    "texturesByHashes (cache w') = texturesByHashes (cache w)"
    "ktxCache (cache w') = ktxCache (cache w)"
    "live w a \<Longrightarrow> live w' a" "a < nextAddr w \<Longrightarrow> textures w' a = textures w a"
    "nextAddr w \<le> nextAddr w'"
  using assms
  by (cases "textureType nt";
      auto simp: getFallbackTexture_def getFallbackTextureForType_def getWhiteTexture_def
        getBlueTexture_def getBlackTexture_def newTexture_def split: if_splits)+

subsection \<open>The budget check\<close>

lemma mulInt32_signed: "mulInt32 a b = signed_take_bit 31 (a * b)"
proof -
  have "mulInt32 a b = sint (word_of_int (a * b) :: 32 word)"
    by (simp add: mulInt32_def)
  also have "\<dots> = signed_take_bit 31 (a * b)"
    by (simp only: sint_sbintrunc') simp
  finally show ?thesis .
qed

lemma mulInt32_exact:
  "- (2 ^ 31) \<le> a * b \<Longrightarrow> a * b < 2 ^ 31 \<Longrightarrow> mulInt32 a b = a * b"
  by (simp add: mulInt32_signed signed_take_bit_int_eq_self)

lemma downscale_fits:
  assumes "- (2 ^ 31) \<le> imgWidth i * imgHeight i" and "imgWidth i * imgHeight i < 2 ^ 31"
  shows "downscale e b i =
     (if imgWidth i * imgHeight i > b
      then (scaled e i (fst (downscaledSize e b (imgWidth i) (imgHeight i)))
                       (snd (downscaledSize e b (imgWidth i) (imgHeight i))),
            downscaledSize e b (imgWidth i) (imgHeight i))
      else (i, imgWidth i, imgHeight i))"
  using assms by (simp add: downscale_def mulInt32_exact Let_def split_beta)

lemma downscale_within_budget:
  assumes "0 \<le> imgWidth i" and "0 \<le> imgHeight i"
    and "imgWidth i * imgHeight i \<le> b" and "b < 2 ^ 31"
  shows "downscale e b i = (i, imgWidth i, imgHeight i)"
proof -
  have "0 \<le> imgWidth i * imgHeight i" using assms(1,2) by simp
  then show ?thesis
    using assms(3,4) by (simp add: downscale_fits)
qed

lemma exactDownscaledSize_bound:
  assumes w: "0 < w" and h: "0 < h" and b: "1 \<le> b"
  shows "(fst (exactDownscaledSize b w h) - 1) * (snd (exactDownscaledSize b w h) - 1) \<le> b"
    and "\<bar>real_of_int (fst (exactDownscaledSize b w h))
           - sqrt (real_of_int b / real_of_int (w * h)) * real_of_int w\<bar> \<le> 1 / 2"
    and "\<bar>real_of_int (snd (exactDownscaledSize b w h))
           - sqrt (real_of_int b / real_of_int (w * h)) * real_of_int h\<bar> \<le> 1 / 2"
proof -
  define s where "s = sqrt (real_of_int b / real_of_int (w * h))"
  define x where "x = s * real_of_int w"
  define y where "y = s * real_of_int h"
  define w' where "w' = \<lfloor>x + 1 / 2\<rfloor>"
  define h' where "h' = \<lfloor>y + 1 / 2\<rfloor>"
  have e: "exactDownscaledSize b w h = (w', h')"
    by (simp add: exactDownscaledSize_def w'_def h'_def x_def y_def s_def)
  have nn: "0 \<le> real_of_int b / (real_of_int w * real_of_int h)"
  proof (rule divide_nonneg_pos)
    show "0 \<le> real_of_int b" using b by simp
    show "0 < real_of_int w * real_of_int h" using w h by simp
  qed
  have s0: "0 \<le> s" using nn by (simp add: s_def)
  have x0: "0 \<le> x" and y0: "0 \<le> y" using s0 w h by (simp_all add: x_def y_def)
  have "s * s = real_of_int b / real_of_int (w * h)"
    unfolding s_def using nn by (simp only: real_sqrt_mult_self of_int_mult abs_of_nonneg)
  then have xy: "x * y = real_of_int b"
    using w h by (simp add: x_def y_def field_simps)
  have wl: "real_of_int w' \<le> x + 1 / 2" and wu: "x + 1 / 2 < real_of_int w' + 1"
    unfolding w'_def by linarith+
  have hl: "real_of_int h' \<le> y + 1 / 2" and hu: "y + 1 / 2 < real_of_int h' + 1"
    unfolding h'_def by linarith+
  have w0: "0 \<le> w'" and h0: "0 \<le> h'" using x0 y0 by (simp_all add: w'_def h'_def)
  have "real_of_int ((w' - 1) * (h' - 1)) \<le> real_of_int b"
  proof (cases "1 \<le> w' \<and> 1 \<le> h'")
    case True
    have "real_of_int (w' - 1) * real_of_int (h' - 1) \<le> x * y"
      by (rule mult_mono) (use True wl hl x0 y0 in auto)
    then show ?thesis by (simp add: xy)
  next
    case False
    then consider "w' = 0" "h' = 0" | "w' = 0" "1 \<le> h'" | "h' = 0" "1 \<le> w'"
      using w0 h0 by force
    then show ?thesis
    proof cases
      case 1 then show ?thesis using b by simp
    next
      case 2 then show ?thesis using b by simp
    next
      case 3 then show ?thesis using b by simp
    qed
  qed
  then have "(w' - 1) * (h' - 1) \<le> b" by linarith
  then show "(fst (exactDownscaledSize b w h) - 1) * (snd (exactDownscaledSize b w h) - 1) \<le> b"
    by (simp add: e)
  show "\<bar>real_of_int (fst (exactDownscaledSize b w h))
           - sqrt (real_of_int b / real_of_int (w * h)) * real_of_int w\<bar> \<le> 1 / 2"
  proof -
    have "\<bar>real_of_int w' - x\<bar> \<le> 1 / 2" using wl wu by linarith
    then show ?thesis by (simp only: e fst_conv x_def s_def)
  qed
  show "\<bar>real_of_int (snd (exactDownscaledSize b w h))
           - sqrt (real_of_int b / real_of_int (w * h)) * real_of_int h\<bar> \<le> 1 / 2"
  proof -
    have "\<bar>real_of_int h' - y\<bar> \<le> 1 / 2" using hl hu by linarith
    then show ?thesis by (simp only: e snd_conv y_def s_def)
  qed
qed

text \<open>
  C4. A 46341 x 46341 image with a budget of 1000000 pixels: the product of the sides is
  2147488281, above the budget and above \<open>2^31\<close>; the 32-bit product of line 541 is
  -2147479015, so the test fails and the image goes on at full size.
\<close>

theorem downscale_product_overflow:
  "(46341::int) * 46341 > 1000000
   \<and> mulInt32 46341 46341 = - 2147479015
   \<and> downscale e 1000000 \<lparr>imgWidth = 46341, imgHeight = 46341, imgFormat = Format_Valid 0\<rparr>
       = (\<lparr>imgWidth = 46341, imgHeight = 46341, imgFormat = Format_Valid 0\<rparr>, 46341, 46341)"
  by (simp add: downscale_def mulInt32_def)

subsection \<open>The steps of the task, in full\<close>

lemma getFallbackTexture_below:
  assumes "getFallbackTexture nt w = (fb, w')" and "b < nextAddr w"
  shows "live w' b = live w b" and "textures w' b = textures w b"
  using assms
  by (cases "textureType nt";
      auto simp: getFallbackTexture_def getFallbackTextureForType_def getWhiteTexture_def
        getBlueTexture_def getBlackTexture_def newTexture_def split: if_splits)+

lemma saveKtx_effect:
  fixes e :: env and t :: image_reader and a :: tex_addr and w :: world
  assumes cl: "cacheLive w" and res: "resources w (taskResource t) = Some nt"
  defines "saved \<equiv> (case serialize e (textures w a) of None \<Rightarrow> None
                     | Some k \<Rightarrow> if writeSucceeds e (taskHash t) k then Some k else None)"
  shows "\<exists>w'. saveKtx e t (Some a) w = Inr w' \<and> cacheLive w'
      \<and> eventQueue w' = eventQueue w \<and> threadPool w' = threadPool w \<and> emitted w' = emitted w
      \<and> live w' = live w \<and> nextAddr w' = nextAddr w
      \<and> texturesByHashes (cache w') = texturesByHashes (cache w)
      \<and> ktxCache (cache w') =
           (case saved of None \<Rightarrow> ktxCache (cache w)
            | Some k \<Rightarrow> (ktxCache (cache w))(taskHash t \<mapsto> k))
      \<and> resources w' =
           (case saved of None \<Rightarrow> resources w
            | Some k \<Rightarrow> (resources w)(taskResource t \<mapsto> nt\<lparr>ktxFile := Some k\<rparr>))
      \<and> textures w' a =
           (case saved of None \<Rightarrow> textures w a
            | Some k \<Rightarrow> (case getKTX e k of None \<Rightarrow> textures w a
                         | Some fk \<Rightarrow> setKtxBacking fk (textures w a)))
      \<and> (\<forall>b. b \<noteq> a \<longrightarrow> textures w' b = textures w b)"
  using cl res
  by (auto simp: saveKtx_def writeFile_def updResource_def updTexture_def Let_def saved_def
      split: option.splits)

lemma reconcile_effect:
  fixes t :: image_reader and a :: tex_addr and w :: world
  assumes cl: "cacheLive w" and lv: "live w a"
  defines "h0 \<equiv> holder (live w) (texturesByHashes (cache w)) (taskHash t)"
  shows "\<exists>w'. reconcile t (Some a) w = ((case h0 of None \<Rightarrow> Some a | Some b \<Rightarrow> Some b), w')
      \<and> texturesByHashes (cache w') =
           (case h0 of None \<Rightarrow> (texturesByHashes (cache w))(taskHash t \<mapsto> Some a)
            | Some b \<Rightarrow> texturesByHashes (cache w))
      \<and> live w' = (case h0 of None \<Rightarrow> live w
                    | Some b \<Rightarrow> if b = a then live w else (live w)(a := False))
      \<and> textures w' = textures w \<and> ktxCache (cache w') = ktxCache (cache w)
      \<and> resources w' = resources w \<and> eventQueue w' = eventQueue w
      \<and> threadPool w' = threadPool w \<and> emitted w' = emitted w \<and> cacheLive w'"
  using cl lv
  by (auto simp: reconcile_def TextureCache_cacheTextureByHash_def cacheTextureByHash_def
      subscript_def lock_def reassign_def holder_eq h0_def Let_def
      split: option.splits if_splits)

lemma decode_effect:
  fixes e :: env and t :: image_reader and w :: world and tex :: gpu_texture
    and nt :: network_texture
  defines "img \<equiv> fromData e (taskContent t) (filenameExtension (urlFileName (taskUrl t)))"
    and "a \<equiv> nextAddr w" and "h \<equiv> taskHash t" and "u \<equiv> urlString (taskUrl t)"
    and "m \<equiv> texturesByHashes (cache w)"
  defines "h0 \<equiv> holder (live w) m h"
    and "wA \<equiv> updTexture a (setSource u) (snd (newTexture tex w))"
  defines "made \<equiv> setFallbackTexture (fst (getFallbackTexture nt wA)) (setSource u tex)"
  defines "saved \<equiv> (case serialize e made of None \<Rightarrow> None
                     | Some k \<Rightarrow> if writeSucceeds e h k then Some k else None)"
  assumes valid: "\<not> failedToParse img"
    and res: "resources w (taskResource t) = Some nt"
    and ld: "getTextureLoader nt = Some l"
    and tr: "runLoader e l (fst (downscale e (taskMaxNumPixels t) img)) u = Some tex"
    and cl: "cacheLive w"
    and fresh: "\<forall>b. m h = Some (Some b) \<longrightarrow> b < a"
  shows "\<exists>w1. decode e t w =
            Inr (Some ((case h0 of None \<Rightarrow> Some a | Some b \<Rightarrow> Some b), h0 = None,
                       snd (downscale e (taskMaxNumPixels t) img)), w1)
      \<and> texturesByHashes (cache w1) = (case h0 of None \<Rightarrow> m(h \<mapsto> Some a) | Some b \<Rightarrow> m)
      \<and> ktxCache (cache w1) =
           (case saved of None \<Rightarrow> ktxCache (cache w) | Some k \<Rightarrow> (ktxCache (cache w))(h \<mapsto> k))
      \<and> textures w1 a =
           (case saved of None \<Rightarrow> made
            | Some k \<Rightarrow> (case getKTX e k of None \<Rightarrow> made | Some fk \<Rightarrow> setKtxBacking fk made))
      \<and> live w1 a = (h0 = None)
      \<and> (\<forall>b<a. textures w1 b = textures w b \<and> live w1 b = live w b)
      \<and> resources w1 =
           (case saved of None \<Rightarrow> resources w
            | Some k \<Rightarrow> (resources w)(taskResource t \<mapsto> nt\<lparr>ktxFile := Some k\<rparr>))
      \<and> eventQueue w1 = eventQueue w \<and> threadPool w1 = threadPool w
      \<and> emitted w1 = emitted w \<and> cacheLive w1"
proof -
  define fb where "fb = fst (getFallbackTexture nt wA)"
  define wG where "wG = snd (getFallbackTexture nt wA)"
  have G: "getFallbackTexture nt wA = (fb, wG)" by (simp add: fb_def wG_def)
  have A: "nextAddr wA = Suc a" "textures wA a = setSource u tex" "live wA a"
    "\<forall>b<a. textures wA b = textures w b \<and> live wA b = live w b"
    "cacheLive wA" "eventQueue wA = eventQueue w" "threadPool wA = threadPool w"
    "emitted wA = emitted w" "resources wA = resources w"
    "texturesByHashes (cache wA) = m" "ktxCache (cache wA) = ktxCache (cache w)"
    using cl by (simp_all add: wA_def updTexture_def newTexture_def a_def m_def)
  have lt: "a < nextAddr wA" using A(1) by simp
  have Gf: "cacheLive wG" "eventQueue wG = eventQueue w" "threadPool wG = threadPool w"
    "emitted wG = emitted w" "resources wG = resources w"
    "texturesByHashes (cache wG) = m" "ktxCache (cache wG) = ktxCache (cache w)"
    using getFallbackTexture_frame(1-7) [OF G] A by simp_all
  have Ga: "textures wG a = setSource u tex" "live wG a"
    using getFallbackTexture_below [OF G lt] A(2,3) by simp_all
  have Gb: "\<forall>b<a. textures wG b = textures w b \<and> live wG b = live w b"
  proof (intro allI impI)
    fix b assume "b < a"
    then have "b < nextAddr wA" using A(1) by simp
    from getFallbackTexture_below [OF G this] A(4) \<open>b < a\<close>
    show "textures wG b = textures w b \<and> live wG b = live w b" by simp
  qed
  define w2 where "w2 = attachFallback nt (Some a) wA"
  have w2: "w2 = updTexture a (setFallbackTexture fb) wG"
    by (simp add: w2_def attachFallback_def G)
  have B: "textures w2 a = made" "live w2 a"
    "\<forall>b<a. textures w2 b = textures w b \<and> live w2 b = live w b"
    "cacheLive w2" "eventQueue w2 = eventQueue w" "threadPool w2 = threadPool w"
    "emitted w2 = emitted w" "resources w2 = resources w"
    "texturesByHashes (cache w2) = m" "ktxCache (cache w2) = ktxCache (cache w)"
    using Gf Ga Gb by (simp_all add: w2 updTexture_def made_def fb_def)
  have r2: "resources w2 (taskResource t) = Some nt" using B(8) res by simp
  from saveKtx_effect [OF B(4) r2, of e a] obtain w3 where
    S: "saveKtx e t (Some a) w2 = Inr w3" "cacheLive w3" "eventQueue w3 = eventQueue w2"
      "threadPool w3 = threadPool w2" "emitted w3 = emitted w2" "live w3 = live w2"
      "texturesByHashes (cache w3) = texturesByHashes (cache w2)"
      "ktxCache (cache w3) =
         (case saved of None \<Rightarrow> ktxCache (cache w2)
          | Some k \<Rightarrow> (ktxCache (cache w2))(h \<mapsto> k))"
      "resources w3 =
         (case saved of None \<Rightarrow> resources w2
          | Some k \<Rightarrow> (resources w2)(taskResource t \<mapsto> nt\<lparr>ktxFile := Some k\<rparr>))"
      "textures w3 a =
         (case saved of None \<Rightarrow> made
          | Some k \<Rightarrow> (case getKTX e k of None \<Rightarrow> made | Some fk \<Rightarrow> setKtxBacking fk made))"
      "\<forall>b. b \<noteq> a \<longrightarrow> textures w3 b = textures w2 b"
    unfolding saved_def h_def B(1) by blast
  have l3: "live w3 a" using S(6) B(2) by simp
  have h3: "holder (live w3) (texturesByHashes (cache w3)) (taskHash t) = h0"
    using fresh B(3) unfolding S(6,7) B(9) h0_def h_def
    by (auto simp: holder_eq lock_def split: option.splits)
  from reconcile_effect [OF S(2) l3, of t] obtain w4 where
    R: "reconcile t (Some a) w3 = ((case h0 of None \<Rightarrow> Some a | Some b \<Rightarrow> Some b), w4)"
      "texturesByHashes (cache w4) =
         (case h0 of None \<Rightarrow> (texturesByHashes (cache w3))(taskHash t \<mapsto> Some a)
          | Some b \<Rightarrow> texturesByHashes (cache w3))"
      "live w4 = (case h0 of None \<Rightarrow> live w3
                  | Some b \<Rightarrow> if b = a then live w3 else (live w3)(a := False))"
      "textures w4 = textures w3" "ktxCache (cache w4) = ktxCache (cache w3)"
      "resources w4 = resources w3" "eventQueue w4 = eventQueue w3"
      "threadPool w4 = threadPool w3" "emitted w4 = emitted w3" "cacheLive w4"
    unfolding h3 by blast
  have ne: "\<And>b. h0 = Some b \<Longrightarrow> b < a"
    using fresh unfolding h0_def
    by (auto simp: holder_eq lock_def split: option.splits if_splits)
  have own: "((case h0 of None \<Rightarrow> Some a | Some b \<Rightarrow> Some b) = Some a) = (h0 = None)"
    using ne by (cases h0) auto
  have L: "loadImageTexture e nt (fst (downscale e (taskMaxNumPixels t) img)) u w
             = Inr (Some a, wA)"
    using ld tr by (simp add: loadImageTexture_def reset_def newTexture_def a_def wA_def)
  have D: "decode e t w =
            Inr (Some ((case h0 of None \<Rightarrow> Some a | Some b \<Rightarrow> Some b), h0 = None,
                       snd (downscale e (taskMaxNumPixels t) img)), w4)"
    using valid res L S(1) R(1) own
    by (simp add: decode_def img_def [symmetric] u_def [symmetric] split_beta
        w2_def [symmetric])
  have la: "live w4 a = (h0 = None)"
    using ne l3 unfolding R(3) by (cases h0) auto
  have lb: "\<forall>b<a. textures w4 b = textures w b \<and> live w4 b = live w b"
    using B(3) S(6,11) unfolding R(3,4) by (cases h0) auto
  have reg: "texturesByHashes (cache w4) =
               (case h0 of None \<Rightarrow> m(h \<mapsto> Some a) | Some b \<Rightarrow> m)"
    using R(2) S(7) B(9) by (cases h0) (simp_all add: h_def)
  have disk: "ktxCache (cache w4) =
           (case saved of None \<Rightarrow> ktxCache (cache w) | Some k \<Rightarrow> (ktxCache (cache w))(h \<mapsto> k))"
    using R(5) S(8) B(10) by (cases saved) simp_all
  have rs: "resources w4 =
           (case saved of None \<Rightarrow> resources w
            | Some k \<Rightarrow> (resources w)(taskResource t \<mapsto> nt\<lparr>ktxFile := Some k\<rparr>))"
    using R(6) S(9) B(8) by (cases saved) simp_all
  have tx: "textures w4 a =
           (case saved of None \<Rightarrow> made
            | Some k \<Rightarrow> (case getKTX e k of None \<Rightarrow> made | Some fk \<Rightarrow> setKtxBacking fk made))"
    using R(4) S(10) by simp
  have fr: "eventQueue w4 = eventQueue w" "threadPool w4 = threadPool w"
    "emitted w4 = emitted w"
    using R(7,8,9) S(3,4,5) B(5,6,7) by simp_all
  show ?thesis
    using D reg disk tx la lb rs fr R(10) by blast
qed

subsection \<open>Content arrival\<close>

lemma loadContent_live_hit:
  assumes res: "resources w self = Some r" and cl: "cacheLive w"
    and hit: "holder (live w) (texturesByHashes (cache w)) (md5 e content) = Some a"
  shows "loadContent e self content w =
           setImage e self (Some a) (texWidth (textures w a)) (texHeight (textures w a)) w"
proof -
  from hit have m: "texturesByHashes (cache w) (md5 e content) = Some (Some a)" and lv: "live w a"
    by (auto simp: holder_eq lock_def split: option.splits if_splits)
  have "TextureCache_getTextureByHash (md5 e content) w = (Some a, w)"
    using m lv
    by (simp add: TextureCache_getTextureByHash_def getTextureByHash_def subscript_def lock_def)
  then show ?thesis using res cl by (simp add: loadContent_def)
qed

lemma getTextureByHash_miss:
  assumes miss: "holder (live w) (texturesByHashes (cache w)) h = None"
  shows "\<exists>w1. TextureCache_getTextureByHash h w = (None, w1)
        \<and> holder (live w1) (texturesByHashes (cache w1)) h = None
        \<and> live w1 = live w \<and> nextAddr w1 = nextAddr w \<and> textures w1 = textures w
        \<and> resources w1 = resources w \<and> eventQueue w1 = eventQueue w
        \<and> threadPool w1 = threadPool w \<and> emitted w1 = emitted w
        \<and> ktxCache (cache w1) = ktxCache (cache w) \<and> cacheLive w1 = cacheLive w"
  using miss
  by (auto simp: holder_eq TextureCache_getTextureByHash_def getTextureByHash_def subscript_def
      lock_def split: option.splits if_splits)

lemma loadFromKtxCache_miss:
  assumes "getFile h w = None
         \<or> (\<exists>f. getFile h w = Some f
              \<and> (getKTX e f = None \<or> (\<exists>k. getKTX e f = Some k \<and> unserialize e k = None)))"
  shows "loadFromKtxCache e h w = (None, w)"
  using assms by (auto simp: loadFromKtxCache_def reset_def)

lemma loadFromKtxCache_hit:
  assumes f: "getFile h w = Some f" and k: "getKTX e f = Some k"
    and u: "unserialize e k = Some tex"
    and miss: "holder (live w) (texturesByHashes (cache w)) h = None"
  shows "\<exists>w'. loadFromKtxCache e h w = (Some (nextAddr w), w')
        \<and> holder (live w') (texturesByHashes (cache w')) h = Some (nextAddr w)
        \<and> textures w' (nextAddr w) = setKtxBacking k tex
        \<and> resources w' = resources w \<and> threadPool w' = threadPool w"
proof -
  define a where "a = nextAddr w"
  define w2 where "w2 = updTexture a (setKtxBacking k) (snd (newTexture tex w))"
  define c where "c = cacheTextureByHash (live w2) h (Some a) (texturesByHashes (cache w2))"
  have lv: "live w2 a" by (simp add: w2_def updTexture_def newTexture_def a_def)
  have reg: "texturesByHashes (cache w2) = texturesByHashes (cache w)"
    and lv2: "live w2 = (live w)(a := True)"
    by (simp_all add: w2_def updTexture_def newTexture_def a_def)
  have fc: "fst c = Some a"
    using miss unfolding c_def reg lv2
    by (auto simp: holder_eq cacheTextureByHash_def subscript_def lock_def
        split: option.splits if_splits)
  have hd: "holder (live w2) (snd c) h = Some a"
    using cacheTextureByHash_holder [of "Some a" "live w2" h "texturesByHashes (cache w2)"] lv fc
    by (simp add: c_def)
  have "loadFromKtxCache e h w =
          (fst c, reassign (Some a) (fst c) (w2\<lparr>cache := (cache w2)\<lparr>texturesByHashes := snd c\<rparr>\<rparr>))"
    using f k u
    by (simp add: loadFromKtxCache_def reset_def TextureCache_cacheTextureByHash_def split_beta
        c_def w2_def a_def newTexture_def Let_def)
  then have "loadFromKtxCache e h w =
          (Some a, w2\<lparr>cache := (cache w2)\<lparr>texturesByHashes := snd c\<rparr>\<rparr>)"
    using fc by (simp add: reassign_def)
  moreover have "textures w2 a = setKtxBacking k tex" "resources w2 = resources w"
      "threadPool w2 = threadPool w"
    by (simp_all add: w2_def updTexture_def newTexture_def a_def)
  ultimately show ?thesis using hd unfolding a_def by simp
qed

lemma setImage_result:
  assumes "resources w self = Some r"
  shows "\<exists>r'. resources (setImage e self texture ow oh w) self = Some r'
           \<and> loaded r' \<and> failedToLoad r' = failedToLoad r
           \<and> textureSource r' = texture \<and> originalWidth r' = ow \<and> originalHeight r' = oh
           \<and> (texture = None \<longrightarrow> width r' = 0 \<and> height r' = 0)
           \<and> (\<forall>a. texture = Some a \<longrightarrow>
                 width r' = texWidth (textures w a) \<and> height r' = texHeight (textures w a))"
  using assms
  by (auto simp add: setImage_def updResource_def finishedLoading_def Let_def split: option.splits)

lemma setImage_frame:
  "threadPool (setImage e self texture ow oh w) = threadPool w"
  "eventQueue (setImage e self texture ow oh w) = eventQueue w"
  "cache (setImage e self texture ow oh w) = cache w"
  "live (setImage e self texture ow oh w) = live w"
  "textures (setImage e self texture ow oh w) = textures w"
  "cacheLive (setImage e self texture ow oh w) = cacheLive w"
  "emitted (setImage e self texture ow oh w) = emitted w @ [networkTextureCreated self]"
  "(resources (setImage e self texture ow oh w) s = None) = (resources w s = None)"
  by (simp_all add: setImage_def updResource_def Let_def split: option.splits)

text \<open>
  C5. With the resource and its cache in place, \<open>loadContent\<close> hashes the content and
  looks the hash up in the registry first: a live holder is adopted at once through
  \<open>setImage\<close>. On a miss it consults the disk cache: an entry that deserializes at both
  steps becomes a new texture, is registered under the hash, and the resource is
  loaded with it, with no task added to the thread pool. A missing entry, or one that
  fails at the container step or at the texture step, leaves the resource as it was
  and adds one \<open>ImageReader\<close> for the content to the thread pool.
\<close>

theorem loadContent_lookup_order:
  assumes res: "resources w self = Some r" and cl: "cacheLive w"
  shows "(\<forall>a. holder (live w) (texturesByHashes (cache w)) (md5 e content) = Some a \<longrightarrow>
            loadContent e self content w =
              setImage e self (Some a) (texWidth (textures w a)) (texHeight (textures w a)) w)
       \<and> (holder (live w) (texturesByHashes (cache w)) (md5 e content) = None \<longrightarrow>
            (\<forall>f k tex. getFile (md5 e content) w = Some f \<and> getKTX e f = Some k
                  \<and> unserialize e k = Some tex \<longrightarrow>
                threadPool (loadContent e self content w) = threadPool w
              \<and> holder (live (loadContent e self content w))
                   (texturesByHashes (cache (loadContent e self content w))) (md5 e content)
                  = Some (nextAddr w)
              \<and> textures (loadContent e self content w) (nextAddr w) = setKtxBacking k tex
              \<and> (\<exists>r'. resources (loadContent e self content w) self = Some r' \<and> loaded r'
                      \<and> textureSource r' = Some (nextAddr w)))
          \<and> (getFile (md5 e content) w = None
               \<or> (\<exists>f. getFile (md5 e content) w = Some f
                    \<and> (getKTX e f = None
                        \<or> (\<exists>k. getKTX e f = Some k \<and> unserialize e k = None))) \<longrightarrow>
                threadPool (loadContent e self content w) = threadPool w @
                  [\<lparr>taskResource = self, taskUrl = url r, taskContent = content,
                    taskHash = md5 e content, taskMaxNumPixels = maxNumPixels r\<rparr>]
              \<and> resources (loadContent e self content w) = resources w
              \<and> eventQueue (loadContent e self content w) = eventQueue w
              \<and> emitted (loadContent e self content w) = emitted w))"
proof (intro conjI allI impI)
  fix a assume "holder (live w) (texturesByHashes (cache w)) (md5 e content) = Some a"
  then show "loadContent e self content w =
              setImage e self (Some a) (texWidth (textures w a)) (texHeight (textures w a)) w"
    by (rule loadContent_live_hit [OF res cl])
next
  assume miss: "holder (live w) (texturesByHashes (cache w)) (md5 e content) = None"
  from getTextureByHash_miss [OF miss] obtain w1 where
    g: "TextureCache_getTextureByHash (md5 e content) w = (None, w1)"
      "holder (live w1) (texturesByHashes (cache w1)) (md5 e content) = None"
      "live w1 = live w" "nextAddr w1 = nextAddr w" "textures w1 = textures w"
      "resources w1 = resources w" "eventQueue w1 = eventQueue w"
      "threadPool w1 = threadPool w" "emitted w1 = emitted w"
      "ktxCache (cache w1) = ktxCache (cache w)" "cacheLive w1 = cacheLive w"
    by blast
  {
    fix f k tex
    assume h: "getFile (md5 e content) w = Some f \<and> getKTX e f = Some k
                  \<and> unserialize e k = Some tex"
    then have "getFile (md5 e content) w1 = Some f" using g(10) by (simp add: getFile_def)
    from loadFromKtxCache_hit [OF this _ _ g(2), of e k tex] h obtain w2 where
      l: "loadFromKtxCache e (md5 e content) w1 = (Some (nextAddr w), w2)"
        "holder (live w2) (texturesByHashes (cache w2)) (md5 e content) = Some (nextAddr w)"
        "textures w2 (nextAddr w) = setKtxBacking k tex"
        "resources w2 = resources w" "threadPool w2 = threadPool w"
      using g(4,6,8) by auto
    have lc: "loadContent e self content w =
        setImage e self (Some (nextAddr w)) (texWidth (textures w2 (nextAddr w)))
          (texHeight (textures w2 (nextAddr w))) w2"
      using res cl g(1) l(1) by (simp add: loadContent_def)
    have r2: "resources w2 self = Some r" using l(4) res by simp
    show "threadPool (loadContent e self content w) = threadPool w"
      by (simp add: lc setImage_frame l(5))
    show "holder (live (loadContent e self content w))
                   (texturesByHashes (cache (loadContent e self content w))) (md5 e content)
                  = Some (nextAddr w)"
      by (simp add: lc setImage_frame l(2))
    show "textures (loadContent e self content w) (nextAddr w) = setKtxBacking k tex"
      by (simp add: lc setImage_frame l(3))
    show "\<exists>r'. resources (loadContent e self content w) self = Some r' \<and> loaded r'
                      \<and> textureSource r' = Some (nextAddr w)"
      using setImage_result [OF r2, of e "Some (nextAddr w)"] unfolding lc by blast
  }
  {
    assume h: "getFile (md5 e content) w = None
               \<or> (\<exists>f. getFile (md5 e content) w = Some f
                    \<and> (getKTX e f = None
                        \<or> (\<exists>k. getKTX e f = Some k \<and> unserialize e k = None)))"
    have gf: "getFile (md5 e content) w1 = getFile (md5 e content) w"
      using g(10) by (simp add: getFile_def)
    have "loadFromKtxCache e (md5 e content) w1 = (None, w1)"
      by (rule loadFromKtxCache_miss) (use h gf in simp)
    then have lc: "loadContent e self content w = startImageReader self r content (md5 e content) w1"
      using res cl g(1) by (simp add: loadContent_def)
    show "threadPool (loadContent e self content w) = threadPool w @
                  [\<lparr>taskResource = self, taskUrl = url r, taskContent = content,
                    taskHash = md5 e content, taskMaxNumPixels = maxNumPixels r\<rparr>]"
      by (simp add: lc startImageReader_def g(8))
    show "resources (loadContent e self content w) = resources w"
      by (simp add: lc startImageReader_def g(6))
    show "eventQueue (loadContent e self content w) = eventQueue w"
      by (simp add: lc startImageReader_def g(7))
    show "emitted (loadContent e self content w) = emitted w"
      by (simp add: lc startImageReader_def g(9))
  }
qed

subsection \<open>The example worlds, evaluated\<close>

lemma requestWorld_eq:
  "requestWorld = startWorld\<lparr>resources :=
      [0 \<mapsto> \<lparr>url = exampleUrl, textureType = ALBEDO_TEXTURE, maxNumPixels = 100,
              textureLoader = None, loaded = False, failedToLoad = False,
              startedLoading = False, originalWidth = 0, originalHeight = 0,
              width = 0, height = 0, bytes = 0, textureSource = None, ktxFile = None\<rparr>]\<rparr>"
  by (simp add: requestWorld_def NetworkTexture_def startWorld_def exampleUrl_def Let_def)

lemma requestWorld_fields:
  "cacheLive requestWorld" "nextAddr requestWorld = 0" "eventQueue requestWorld = []"
  "threadPool requestWorld = []" "cache requestWorld = emptyCache"
  "live requestWorld = (\<lambda>a. False)"
  by (simp_all add: requestWorld_eq startWorld_def)

lemma diskWorld_eq:
  "diskWorld = requestWorld\<lparr>cache := emptyCache\<lparr>ktxCache := [''1'' \<mapsto> [5]]\<rparr>\<rparr>"
  by (simp add: diskWorld_def writeFile_def exampleEnv_def requestWorld_fields emptyCache_def)

lemma exampleEnv_simps:
  "md5 exampleEnv [1] = ''1''"
  "fromData exampleEnv [1] x = \<lparr>imgWidth = 4, imgHeight = 2, imgFormat = Format_Valid 0\<rparr>"
  "getKTX exampleEnv bs = Some bs" "unserialize exampleEnv k = Some (createStrict 4 2)"
  "runLoader exampleEnv l i u = Some ((createStrict (imgWidth i) (imgHeight i))\<lparr>source := u\<rparr>)"
  "writeSucceeds exampleEnv h bs" "serialize exampleEnv t = Some []"
  by (simp_all add: exampleEnv_def)

theorem loadContent_lookup_order_witness:
  "loadContent exampleEnv 0 [1] liveWorld = setImage exampleEnv 0 (Some 0) 4 2 liveWorld
   \<and> threadPool (loadContent exampleEnv 0 [1] diskWorld) = []
   \<and> (\<exists>r'. resources (loadContent exampleEnv 0 [1] diskWorld) 0 = Some r' \<and> loaded r'
         \<and> textureSource r' = Some 0)
   \<and> threadPool (loadContent corruptEnv 0 [1] diskWorld) = [pixelTask]"
proof -
  let ?r = "\<lparr>url = exampleUrl, textureType = ALBEDO_TEXTURE, maxNumPixels = 100,
              textureLoader = None, loaded = False, failedToLoad = False,
              startedLoading = False, originalWidth = 0, originalHeight = 0,
              width = 0, height = 0, bytes = 0, textureSource = None, ktxFile = None\<rparr>"
  have rl: "resources liveWorld 0 = Some ?r" and cl: "cacheLive liveWorld"
    and hl: "holder (live liveWorld) (texturesByHashes (cache liveWorld)) ''1'' = Some 0"
    and tl: "texWidth (textures liveWorld 0) = 4" "texHeight (textures liveWorld 0) = 2"
    by (simp_all add: liveWorld_def TextureCache_cacheTextureByHash_def cacheTextureByHash_def
        subscript_def lock_def newTexture_def requestWorld_eq startWorld_def emptyCache_def
        holder_eq createStrict_def)
  have rd: "resources diskWorld 0 = Some ?r" and cd: "cacheLive diskWorld"
    and hd: "holder (live diskWorld) (texturesByHashes (cache diskWorld)) ''1'' = None"
    and fd: "getFile ''1'' diskWorld = Some [5]" and nd: "nextAddr diskWorld = 0"
    and td: "threadPool diskWorld = []"
    by (simp_all add: diskWorld_eq requestWorld_eq startWorld_def emptyCache_def holder_eq
        getFile_def)
  have ce: "md5 corruptEnv [1] = ''1''" "getKTX corruptEnv [5] = Some [5]"
    "unserialize corruptEnv [5] = None"
    by (simp_all add: corruptEnv_def exampleEnv_def)
  show ?thesis
    using loadContent_lookup_order [OF rl cl, of exampleEnv "[1]"]
      loadContent_lookup_order [OF rd cd, of exampleEnv "[1]"]
      loadContent_lookup_order [OF rd cd, of corruptEnv "[1]"]
      hl tl hd fd nd td ce
    by (simp add: exampleEnv_simps pixelTask_def)
qed

subsection \<open>Posted calls\<close>

lemma loadFromKtxCache_resources:
  "resources (snd (loadFromKtxCache e h w)) = resources w"
  by (simp add: loadFromKtxCache_def reset_def newTexture_def updTexture_def reassign_def
      TextureCache_cacheTextureByHash_def split_beta Let_def split: option.splits)

lemma loadContent_dom:
  "(resources (loadContent e s c w) x = None) = (resources w x = None)"
proof (cases "resources w s")
  case None
  then show ?thesis by (simp add: loadContent_def)
next
  case (Some r)
  have g: "resources (snd (TextureCache_getTextureByHash h w)) = resources w" for h
    by (simp add: TextureCache_getTextureByHash_def split_beta)
  show ?thesis
    using Some
    by (simp add: loadContent_def Let_def split_beta setImage_frame startImageReader_def g
        loadFromKtxCache_resources split: option.splits)
qed

lemma dispatch_dom:
  "(resources (dispatch e ev w) x = None) = (resources w x = None)"
  by (cases ev) (simp_all add: setImage_frame loadContent_dom)

lemma fold_dispatch_dom:
  "(resources (fold (dispatch e) evs w) x = None) = (resources w x = None)"
  by (induction evs arbitrary: w) (simp_all add: dispatch_dom)

lemma processEvents_last_setImage:
  assumes q: "eventQueue w = q @ [SetImage s tp iw ih]" and r: "resources w s \<noteq> None"
  shows "\<exists>r'. resources (processEvents e w) s = Some r' \<and> loaded r' \<and> textureSource r' = tp
           \<and> originalWidth r' = iw \<and> originalHeight r' = ih"
proof -
  define wq where "wq = fold (dispatch e) q (w\<lparr>eventQueue := []\<rparr>)"
  have "resources wq s \<noteq> None"
    using r by (simp add: wq_def fold_dispatch_dom)
  then obtain rq where rq: "resources wq s = Some rq" by auto
  have "processEvents e w = setImage e s tp iw ih wq"
    using rq by (simp add: processEvents_def q wq_def)
  then show ?thesis using setImage_result [OF rq, of e tp iw ih] by auto
qed

lemma run_after_decode:
  assumes "decode e t w = Inr (Some d, w1)"
  shows "runAmong others e t w = Inr (deliver t d (others w1))"
proof -
  have "resources w (taskResource t) \<noteq> None"
    using assms by (auto simp: decode_def split_beta Let_def split: if_splits option.splits)
  then obtain r where "resources w (taskResource t) = Some r" by auto
  then show ?thesis using assms by (simp add: runAmong_def readAmong_def)
qed

text \<open>
  C6. When the image parses, the resource is there, its loader returns a texture and
  the texture cache exists, the task completes whatever serialization, the disk write
  and the re-read of the written file do (\<open>saved\<close> is the container that reached the
  disk, if any). The registry's entry for the hash, if it points anywhere, points to a
  texture made earlier. The texture the task delivers is the registry's live holder for the hash
  when there was one, and then the registry is as it was; otherwise it is the new
  texture, which is the loader's texture with its source and fallback set, installed
  under the hash. \<open>setImage\<close> with that texture and the image's size is posted to the
  resource, and once the posted calls have run the resource is loaded and holds it.
\<close>

theorem decode_survives_cache_failures:
  assumes valid: "\<not> failedToParse (fromData e (taskContent t)
                     (filenameExtension (urlFileName (taskUrl t))))"
    and res: "resources w (taskResource t) = Some nt"
    and ld: "getTextureLoader nt = Some l"
    and tr: "runLoader e l
               (fst (downscale e (taskMaxNumPixels t)
                  (fromData e (taskContent t) (filenameExtension (urlFileName (taskUrl t))))))
               (urlString (taskUrl t)) = Some tex"
    and cl: "cacheLive w"
    and fresh: "\<forall>b. texturesByHashes (cache w) (taskHash t) = Some (Some b) \<longrightarrow> b < nextAddr w"
    and h0: "h0 = holder (live w) (texturesByHashes (cache w)) (taskHash t)"
    and made: "made = setFallbackTexture
                 (fst (getFallbackTexture nt
                    (updTexture (nextAddr w) (setSource (urlString (taskUrl t)))
                       (snd (newTexture tex w)))))
                 (setSource (urlString (taskUrl t)) tex)"
    and saved: "saved = (case serialize e made of None \<Rightarrow> None
                  | Some k \<Rightarrow> if writeSucceeds e (taskHash t) k then Some k else None)"
    and delivered: "delivered = (case h0 of None \<Rightarrow> Some (nextAddr w) | Some b \<Rightarrow> Some b)"
    and dims: "(iw, ih) = snd (downscale e (taskMaxNumPixels t)
                  (fromData e (taskContent t) (filenameExtension (urlFileName (taskUrl t)))))"
  shows "\<exists>w'. run e t w = Inr w'
       \<and> eventQueue w' = eventQueue w @ [SetImage (taskResource t) delivered iw ih]
       \<and> texturesByHashes (cache w') =
            (case h0 of
               None \<Rightarrow> (texturesByHashes (cache w))(taskHash t \<mapsto> Some (nextAddr w))
             | Some b \<Rightarrow> texturesByHashes (cache w))
       \<and> holder (live w') (texturesByHashes (cache w')) (taskHash t) = delivered
       \<and> ktxCache (cache w') =
            (case saved of None \<Rightarrow> ktxCache (cache w)
             | Some k \<Rightarrow> (ktxCache (cache w))(taskHash t \<mapsto> k))
       \<and> textures w' (nextAddr w) =
            (case saved of None \<Rightarrow> made
             | Some k \<Rightarrow> (case getKTX e k of None \<Rightarrow> made | Some fk \<Rightarrow> setKtxBacking fk made))
       \<and> (\<forall>b. h0 = Some b \<longrightarrow> textures w' b = textures w b \<and> live w' b)
       \<and> resources w' =
            (case saved of None \<Rightarrow> resources w
             | Some k \<Rightarrow> (resources w)(taskResource t \<mapsto> nt\<lparr>ktxFile := Some k\<rparr>))
       \<and> (\<exists>r'. resources (processEvents e w') (taskResource t) = Some r' \<and> loaded r'
              \<and> textureSource r' = delivered
              \<and> originalWidth r' = iw \<and> originalHeight r' = ih)"
proof -
  from decode_effect [OF valid res ld tr cl fresh]
  obtain w1 where
    D: "decode e t w = Inr (Some (delivered, h0 = None, iw, ih), w1)"
    and reg: "texturesByHashes (cache w1) =
            (case h0 of
               None \<Rightarrow> (texturesByHashes (cache w))(taskHash t \<mapsto> Some (nextAddr w))
             | Some b \<Rightarrow> texturesByHashes (cache w))"
    and disk: "ktxCache (cache w1) =
            (case saved of None \<Rightarrow> ktxCache (cache w)
             | Some k \<Rightarrow> (ktxCache (cache w))(taskHash t \<mapsto> k))"
    and tx: "textures w1 (nextAddr w) =
            (case saved of None \<Rightarrow> made
             | Some k \<Rightarrow> (case getKTX e k of None \<Rightarrow> made | Some fk \<Rightarrow> setKtxBacking fk made))"
    and la: "live w1 (nextAddr w) = (h0 = None)"
    and lb: "\<forall>b<nextAddr w. textures w1 b = textures w b \<and> live w1 b = live w b"
    and rs: "resources w1 =
           (case saved of None \<Rightarrow> resources w
            | Some k \<Rightarrow> (resources w)(taskResource t \<mapsto> nt\<lparr>ktxFile := Some k\<rparr>))"
    and q: "eventQueue w1 = eventQueue w"
    unfolding h0 [symmetric] made [symmetric] saved [symmetric] delivered [symmetric]
      dims [symmetric]
    by blast
  have r1: "resources w1 (taskResource t) \<noteq> None"
    using rs res by (cases saved) simp_all
  then obtain r where r: "resources w1 (taskResource t) = Some r" by auto
  define w' where "w' = deliver t (delivered, h0 = None, iw, ih) w1"
  have W: "w' = w1\<lparr>eventQueue := eventQueue w1 @ [SetImage (taskResource t) delivered iw ih]\<rparr>"
    using r by (simp add: w'_def deliver_def)
  have R: "run e t w = Inr w'"
    using run_after_decode [OF D, of "\<lambda>w. w"] by (simp add: run_def w'_def)
  have some: "\<And>b. h0 = Some b \<Longrightarrow>
      texturesByHashes (cache w) (taskHash t) = Some (Some b) \<and> live w b \<and> b < nextAddr w"
    using fresh unfolding h0
    by (auto simp: holder_eq lock_def split: option.splits if_splits)
  have H: "holder (live w') (texturesByHashes (cache w')) (taskHash t) = delivered"
  proof (cases h0)
    case None
    then show ?thesis using reg la by (simp add: W delivered holder_eq lock_def)
  next
    case (Some b)
    with some [OF Some] lb reg show ?thesis
      by (simp add: W delivered holder_eq lock_def)
  qed
  have adopted: "\<forall>b. h0 = Some b \<longrightarrow> textures w' b = textures w b \<and> live w' b"
    using some lb by (auto simp: W)
  from processEvents_last_setImage [of w' "eventQueue w" "taskResource t" delivered iw ih e] r
  have P: "\<exists>r'. resources (processEvents e w') (taskResource t) = Some r' \<and> loaded r'
              \<and> textureSource r' = delivered
              \<and> originalWidth r' = iw \<and> originalHeight r' = ih"
    by (simp add: W q)
  show ?thesis
    using R H adopted P reg disk tx q rs by (intro exI [of _ w']) (simp add: W)
qed


subsection \<open>The task on the example worlds\<close>

lemma requestWorld_resource:
  "resources requestWorld (taskResource pixelTask) =
     Some \<lparr>url = exampleUrl, textureType = ALBEDO_TEXTURE, maxNumPixels = 100,
              textureLoader = None, loaded = False, failedToLoad = False,
              startedLoading = False, originalWidth = 0, originalHeight = 0,
              width = 0, height = 0, bytes = 0, textureSource = None, ktxFile = None\<rparr>"
  by (simp add: requestWorld_eq pixelTask_def)

lemma albedo_loader:
  "getTextureLoader \<lparr>url = exampleUrl, textureType = ALBEDO_TEXTURE, maxNumPixels = 100,
              textureLoader = None, loaded = False, failedToLoad = False,
              startedLoading = False, originalWidth = 0, originalHeight = 0,
              width = 0, height = 0, bytes = 0, textureSource = None, ktxFile = None\<rparr>
     = Some createAlbedoTextureFromImage"
  by (simp add: getTextureLoader_def getTextureLoaderForType_def)

lemma pixelTask_parses:
  "\<not> failedToParse (fromData noSerializeEnv (taskContent pixelTask)
         (filenameExtension (urlFileName (taskUrl pixelTask))))"
  "\<not> failedToParse (fromData diskFullEnv (taskContent pixelTask)
         (filenameExtension (urlFileName (taskUrl pixelTask))))"
  "\<not> failedToParse (fromData exampleEnv (taskContent pixelTask)
         (filenameExtension (urlFileName (taskUrl pixelTask))))"
  "\<not> failedToParse (fromData nullLoaderEnv (taskContent pixelTask)
         (filenameExtension (urlFileName (taskUrl pixelTask))))"
  by (simp_all add: noSerializeEnv_def diskFullEnv_def nullLoaderEnv_def exampleEnv_def
      pixelTask_def failedToParse_def)

lemma pixelTask_loads:
  "runLoader noSerializeEnv createAlbedoTextureFromImage
     (fst (downscale noSerializeEnv (taskMaxNumPixels pixelTask)
        (fromData noSerializeEnv (taskContent pixelTask)
           (filenameExtension (urlFileName (taskUrl pixelTask))))))
     (urlString (taskUrl pixelTask)) = Some ((createStrict 4 2)\<lparr>source := ''http://a/b.png''\<rparr>)"
  "runLoader diskFullEnv createAlbedoTextureFromImage
     (fst (downscale diskFullEnv (taskMaxNumPixels pixelTask)
        (fromData diskFullEnv (taskContent pixelTask)
           (filenameExtension (urlFileName (taskUrl pixelTask))))))
     (urlString (taskUrl pixelTask)) = Some ((createStrict 4 2)\<lparr>source := ''http://a/b.png''\<rparr>)"
  "runLoader exampleEnv createAlbedoTextureFromImage
     (fst (downscale exampleEnv (taskMaxNumPixels pixelTask)
        (fromData exampleEnv (taskContent pixelTask)
           (filenameExtension (urlFileName (taskUrl pixelTask))))))
     (urlString (taskUrl pixelTask)) = Some ((createStrict 4 2)\<lparr>source := ''http://a/b.png''\<rparr>)"
  "runLoader nullLoaderEnv createAlbedoTextureFromImage
     (fst (downscale nullLoaderEnv (taskMaxNumPixels pixelTask)
        (fromData nullLoaderEnv (taskContent pixelTask)
           (filenameExtension (urlFileName (taskUrl pixelTask))))))
     (urlString (taskUrl pixelTask)) = None"
  by (simp_all add: noSerializeEnv_def diskFullEnv_def nullLoaderEnv_def exampleEnv_def
      pixelTask_def downscale_def exampleUrl_def)

lemma liveWorld_fields:
  "resources liveWorld (taskResource pixelTask) =
     Some \<lparr>url = exampleUrl, textureType = ALBEDO_TEXTURE, maxNumPixels = 100,
              textureLoader = None, loaded = False, failedToLoad = False,
              startedLoading = False, originalWidth = 0, originalHeight = 0,
              width = 0, height = 0, bytes = 0, textureSource = None, ktxFile = None\<rparr>"
  "cacheLive liveWorld" "nextAddr liveWorld = 1" "eventQueue liveWorld = []"
  "threadPool liveWorld = []" "emitted liveWorld = []"
  "texturesByHashes (cache liveWorld) = [''1'' \<mapsto> Some 0]"
  "ktxCache (cache liveWorld) = Map.empty"
  "live liveWorld = (\<lambda>a. False)(0 := True)"
  "textures liveWorld 0 = createStrict 4 2"
  "whiteTexture (cache liveWorld) = None"
  by (simp_all add: liveWorld_def TextureCache_cacheTextureByHash_def cacheTextureByHash_def
      subscript_def lock_def newTexture_def requestWorld_eq startWorld_def emptyCache_def
      pixelTask_def)

lemma requestWorld_more:
  "emitted requestWorld = []" "texturesByHashes (cache requestWorld) = Map.empty"
  "ktxCache (cache requestWorld) = Map.empty" "whiteTexture (cache requestWorld) = None"
  by (simp_all add: requestWorld_eq startWorld_def emptyCache_def)

lemma pixelTask_fields:
  "taskResource pixelTask = 0" "taskHash pixelTask = ''1''"
  "urlString (taskUrl pixelTask) = ''http://a/b.png''"
  by (simp_all add: pixelTask_def exampleUrl_def)

lemma pixelTask_size:
  "(4, 2) = snd (downscale noSerializeEnv (taskMaxNumPixels pixelTask)
        (fromData noSerializeEnv (taskContent pixelTask)
           (filenameExtension (urlFileName (taskUrl pixelTask)))))"
  "(4, 2) = snd (downscale diskFullEnv (taskMaxNumPixels pixelTask)
        (fromData diskFullEnv (taskContent pixelTask)
           (filenameExtension (urlFileName (taskUrl pixelTask)))))"
  "(4, 2) = snd (downscale exampleEnv (taskMaxNumPixels pixelTask)
        (fromData exampleEnv (taskContent pixelTask)
           (filenameExtension (urlFileName (taskUrl pixelTask)))))"
  by (simp_all add: noSerializeEnv_def diskFullEnv_def exampleEnv_def pixelTask_def
      downscale_def mulInt32_def)

text \<open>The texture the task makes from the example image in \<open>requestWorld\<close> and in
  \<open>liveWorld\<close>: the loader's texture with the URL as its source and the white constant,
  built at the next address, as its fallback.\<close>

lemma made_in_requestWorld:
  "\<lparr>texWidth = 4, texHeight = 2, source = ''http://a/b.png'', storedMip = Map.empty,
    fallbackTexture = Some 1, ktxBacking = None\<rparr>
   = setFallbackTexture
       (fst (getFallbackTexture
          \<lparr>url = exampleUrl, textureType = ALBEDO_TEXTURE, maxNumPixels = 100,
              textureLoader = None, loaded = False, failedToLoad = False,
              startedLoading = False, originalWidth = 0, originalHeight = 0,
              width = 0, height = 0, bytes = 0, textureSource = None, ktxFile = None\<rparr>
          (updTexture (nextAddr requestWorld) (setSource (urlString (taskUrl pixelTask)))
             (snd (newTexture ((createStrict 4 2)\<lparr>source := ''http://a/b.png''\<rparr>)
                     requestWorld)))))
       (setSource (urlString (taskUrl pixelTask))
          ((createStrict 4 2)\<lparr>source := ''http://a/b.png''\<rparr>))"
  by (simp add: setFallbackTexture_def getFallbackTexture_def getFallbackTextureForType_def
      getWhiteTexture_def updTexture_def newTexture_def setSource_def createStrict_def
      requestWorld_fields requestWorld_more pixelTask_fields emptyCache_def)

lemma made_in_liveWorld:
  "\<lparr>texWidth = 4, texHeight = 2, source = ''http://a/b.png'', storedMip = Map.empty,
    fallbackTexture = Some 2, ktxBacking = None\<rparr>
   = setFallbackTexture
       (fst (getFallbackTexture
          \<lparr>url = exampleUrl, textureType = ALBEDO_TEXTURE, maxNumPixels = 100,
              textureLoader = None, loaded = False, failedToLoad = False,
              startedLoading = False, originalWidth = 0, originalHeight = 0,
              width = 0, height = 0, bytes = 0, textureSource = None, ktxFile = None\<rparr>
          (updTexture (nextAddr liveWorld) (setSource (urlString (taskUrl pixelTask)))
             (snd (newTexture ((createStrict 4 2)\<lparr>source := ''http://a/b.png''\<rparr>)
                     liveWorld)))))
       (setSource (urlString (taskUrl pixelTask))
          ((createStrict 4 2)\<lparr>source := ''http://a/b.png''\<rparr>))"
  by (simp add: setFallbackTexture_def getFallbackTexture_def getFallbackTextureForType_def
      getWhiteTexture_def updTexture_def newTexture_def setSource_def createStrict_def
      liveWorld_fields pixelTask_fields)

lemma fresh_in_examples:
  "\<forall>b. texturesByHashes (cache requestWorld) (taskHash pixelTask) = Some (Some b)
       \<longrightarrow> b < nextAddr requestWorld"
  "\<forall>b. texturesByHashes (cache liveWorld) (taskHash pixelTask) = Some (Some b)
       \<longrightarrow> b < nextAddr liveWorld"
  by (simp_all add: requestWorld_more liveWorld_fields pixelTask_fields)

lemma holder_in_examples:
  "None = holder (live requestWorld) (texturesByHashes (cache requestWorld)) (taskHash pixelTask)"
  "Some 0 = holder (live liveWorld) (texturesByHashes (cache liveWorld)) (taskHash pixelTask)"
  by (simp_all add: holder_eq lock_def requestWorld_more liveWorld_fields pixelTask_fields)

lemma saved_in_examples:
  "None = (case serialize noSerializeEnv made of None \<Rightarrow> None
           | Some k \<Rightarrow> if writeSucceeds noSerializeEnv (taskHash pixelTask) k then Some k else None)"
  "None = (case serialize diskFullEnv made of None \<Rightarrow> None
           | Some k \<Rightarrow> if writeSucceeds diskFullEnv (taskHash pixelTask) k then Some k else None)"
  "Some [] = (case serialize exampleEnv made of None \<Rightarrow> None
           | Some k \<Rightarrow> if writeSucceeds exampleEnv (taskHash pixelTask) k then Some k else None)"
  by (simp_all add: noSerializeEnv_def diskFullEnv_def exampleEnv_def)

theorem decode_survives_cache_failures_witness:
  "(\<exists>w'. run noSerializeEnv pixelTask requestWorld = Inr w'
        \<and> eventQueue w' = [SetImage 0 (Some 0) 4 2]
        \<and> texturesByHashes (cache w') = [''1'' \<mapsto> Some 0]
        \<and> holder (live w') (texturesByHashes (cache w')) ''1'' = Some 0
        \<and> ktxCache (cache w') = Map.empty
        \<and> textures w' 0 =
            \<lparr>texWidth = 4, texHeight = 2, source = ''http://a/b.png'', storedMip = Map.empty,
             fallbackTexture = Some 1, ktxBacking = None\<rparr>
        \<and> (\<exists>r'. resources (processEvents noSerializeEnv w') 0 = Some r' \<and> loaded r'
               \<and> textureSource r' = Some 0 \<and> originalWidth r' = 4 \<and> originalHeight r' = 2))
   \<and> (\<exists>w'. run diskFullEnv pixelTask requestWorld = Inr w'
        \<and> eventQueue w' = [SetImage 0 (Some 0) 4 2]
        \<and> texturesByHashes (cache w') = [''1'' \<mapsto> Some 0]
        \<and> holder (live w') (texturesByHashes (cache w')) ''1'' = Some 0
        \<and> ktxCache (cache w') = Map.empty
        \<and> textures w' 0 =
            \<lparr>texWidth = 4, texHeight = 2, source = ''http://a/b.png'', storedMip = Map.empty,
             fallbackTexture = Some 1, ktxBacking = None\<rparr>
        \<and> (\<exists>r'. resources (processEvents diskFullEnv w') 0 = Some r' \<and> loaded r'
               \<and> textureSource r' = Some 0 \<and> originalWidth r' = 4 \<and> originalHeight r' = 2))
   \<and> (\<exists>w'. run exampleEnv pixelTask liveWorld = Inr w'
        \<and> eventQueue w' = [SetImage 0 (Some 0) 4 2]
        \<and> texturesByHashes (cache w') = [''1'' \<mapsto> Some 0]
        \<and> holder (live w') (texturesByHashes (cache w')) ''1'' = Some 0
        \<and> ktxCache (cache w') = [''1'' \<mapsto> []]
        \<and> textures w' 0 = createStrict 4 2 \<and> live w' 0
        \<and> (\<exists>r'. resources (processEvents exampleEnv w') 0 = Some r' \<and> loaded r'
               \<and> textureSource r' = Some 0 \<and> originalWidth r' = 4 \<and> originalHeight r' = 2))"
proof (intro conjI)
  from decode_survives_cache_failures [OF pixelTask_parses(1) requestWorld_resource
        albedo_loader pixelTask_loads(1) requestWorld_fields(1) fresh_in_examples(1)
        holder_in_examples(1) made_in_requestWorld saved_in_examples(1) _ pixelTask_size(1),
        of "Some 0"]
  obtain w' where
    f: "run noSerializeEnv pixelTask requestWorld = Inr w'"
        "eventQueue w' = [SetImage 0 (Some 0) 4 2]"
        "texturesByHashes (cache w') = [''1'' \<mapsto> Some 0]"
        "holder (live w') (texturesByHashes (cache w')) ''1'' = Some 0"
        "ktxCache (cache w') = Map.empty"
        "textures w' 0 =
            \<lparr>texWidth = 4, texHeight = 2, source = ''http://a/b.png'', storedMip = Map.empty,
             fallbackTexture = Some 1, ktxBacking = None\<rparr>"
        "\<exists>r'. resources (processEvents noSerializeEnv w') 0 = Some r' \<and> loaded r'
               \<and> textureSource r' = Some 0 \<and> originalWidth r' = 4 \<and> originalHeight r' = 2"
    by (auto simp: requestWorld_fields requestWorld_more pixelTask_fields emptyCache_def)
  then show "\<exists>w'. run noSerializeEnv pixelTask requestWorld = Inr w'
        \<and> eventQueue w' = [SetImage 0 (Some 0) 4 2]
        \<and> texturesByHashes (cache w') = [''1'' \<mapsto> Some 0]
        \<and> holder (live w') (texturesByHashes (cache w')) ''1'' = Some 0
        \<and> ktxCache (cache w') = Map.empty
        \<and> textures w' 0 =
            \<lparr>texWidth = 4, texHeight = 2, source = ''http://a/b.png'', storedMip = Map.empty,
             fallbackTexture = Some 1, ktxBacking = None\<rparr>
        \<and> (\<exists>r'. resources (processEvents noSerializeEnv w') 0 = Some r' \<and> loaded r'
               \<and> textureSource r' = Some 0 \<and> originalWidth r' = 4 \<and> originalHeight r' = 2)"
    by blast
  from decode_survives_cache_failures [OF pixelTask_parses(2) requestWorld_resource
        albedo_loader pixelTask_loads(2) requestWorld_fields(1) fresh_in_examples(1)
        holder_in_examples(1) made_in_requestWorld saved_in_examples(2) _ pixelTask_size(2),
        of "Some 0"]
  obtain w' where
    f: "run diskFullEnv pixelTask requestWorld = Inr w'"
        "eventQueue w' = [SetImage 0 (Some 0) 4 2]"
        "texturesByHashes (cache w') = [''1'' \<mapsto> Some 0]"
        "holder (live w') (texturesByHashes (cache w')) ''1'' = Some 0"
        "ktxCache (cache w') = Map.empty"
        "textures w' 0 =
            \<lparr>texWidth = 4, texHeight = 2, source = ''http://a/b.png'', storedMip = Map.empty,
             fallbackTexture = Some 1, ktxBacking = None\<rparr>"
        "\<exists>r'. resources (processEvents diskFullEnv w') 0 = Some r' \<and> loaded r'
               \<and> textureSource r' = Some 0 \<and> originalWidth r' = 4 \<and> originalHeight r' = 2"
    by (auto simp: requestWorld_fields requestWorld_more pixelTask_fields emptyCache_def)
  then show "\<exists>w'. run diskFullEnv pixelTask requestWorld = Inr w'
        \<and> eventQueue w' = [SetImage 0 (Some 0) 4 2]
        \<and> texturesByHashes (cache w') = [''1'' \<mapsto> Some 0]
        \<and> holder (live w') (texturesByHashes (cache w')) ''1'' = Some 0
        \<and> ktxCache (cache w') = Map.empty
        \<and> textures w' 0 =
            \<lparr>texWidth = 4, texHeight = 2, source = ''http://a/b.png'', storedMip = Map.empty,
             fallbackTexture = Some 1, ktxBacking = None\<rparr>
        \<and> (\<exists>r'. resources (processEvents diskFullEnv w') 0 = Some r' \<and> loaded r'
               \<and> textureSource r' = Some 0 \<and> originalWidth r' = 4 \<and> originalHeight r' = 2)"
    by blast
  from decode_survives_cache_failures [OF pixelTask_parses(3) liveWorld_fields(1)
        albedo_loader pixelTask_loads(3) liveWorld_fields(2) fresh_in_examples(2)
        holder_in_examples(2) made_in_liveWorld saved_in_examples(3) _ pixelTask_size(3),
        of "Some 0"]
  obtain w' where
    f: "run exampleEnv pixelTask liveWorld = Inr w'"
        "eventQueue w' = [SetImage 0 (Some 0) 4 2]"
        "texturesByHashes (cache w') = [''1'' \<mapsto> Some 0]"
        "holder (live w') (texturesByHashes (cache w')) ''1'' = Some 0"
        "ktxCache (cache w') = [''1'' \<mapsto> []]"
        "textures w' 0 = createStrict 4 2" "live w' 0"
        "\<exists>r'. resources (processEvents exampleEnv w') 0 = Some r' \<and> loaded r'
               \<and> textureSource r' = Some 0 \<and> originalWidth r' = 4 \<and> originalHeight r' = 2"
    by (auto simp: liveWorld_fields pixelTask_fields)
  then show "\<exists>w'. run exampleEnv pixelTask liveWorld = Inr w'
        \<and> eventQueue w' = [SetImage 0 (Some 0) 4 2]
        \<and> texturesByHashes (cache w') = [''1'' \<mapsto> Some 0]
        \<and> holder (live w') (texturesByHashes (cache w')) ''1'' = Some 0
        \<and> ktxCache (cache w') = [''1'' \<mapsto> []]
        \<and> textures w' 0 = createStrict 4 2 \<and> live w' 0
        \<and> (\<exists>r'. resources (processEvents exampleEnv w') 0 = Some r' \<and> loaded r'
               \<and> textureSource r' = Some 0 \<and> originalWidth r' = 4 \<and> originalHeight r' = 2)"
    by blast
qed



subsection \<open>A loader that returns null\<close>

text \<open>
  C9. The texture the loader returns is dereferenced by \<open>setSource\<close> before it is
  tested: when the image parses, the resource is there and its loader returns null,
  the task ends in a null-pointer dereference, not in a state of any kind. Whenever
  lines 566-568 do return, the texture they hand to the test of line 569 is non-null, so
  the fallback is always attached there.
\<close>

theorem null_texture_dereferenced:
  assumes valid: "\<not> failedToParse (fromData e (taskContent t)
                     (filenameExtension (urlFileName (taskUrl t))))"
    and res: "resources w (taskResource t) = Some nt"
    and ld: "getTextureLoader nt = Some l"
    and tr: "runLoader e l
               (fst (downscale e (taskMaxNumPixels t)
                  (fromData e (taskContent t) (filenameExtension (urlFileName (taskUrl t))))))
               (urlString (taskUrl t)) = None"
  shows "run e t w = Inl NullPointerDereference
       \<and> (\<forall>e' nt' i u w0 tp w1. loadImageTexture e' nt' i u w0 = Inr (tp, w1) \<longrightarrow>
            (\<exists>a. tp = Some a
               \<and> attachFallback nt' tp w1 =
                   updTexture a (setFallbackTexture (fst (getFallbackTexture nt' w1)))
                     (snd (getFallbackTexture nt' w1))))"
proof
  have "loadImageTexture e nt
          (fst (downscale e (taskMaxNumPixels t)
             (fromData e (taskContent t) (filenameExtension (urlFileName (taskUrl t))))))
          (urlString (taskUrl t)) w = Inl NullPointerDereference"
    using ld tr by (simp add: loadImageTexture_def reset_def)
  then have "decode e t w = Inl NullPointerDereference"
    using valid res by (simp add: decode_def split_beta)
  then show "run e t w = Inl NullPointerDereference"
    using res by (simp add: run_def runAmong_def readAmong_def)
next
  show "\<forall>e' nt' i u w0 tp w1. loadImageTexture e' nt' i u w0 = Inr (tp, w1) \<longrightarrow>
            (\<exists>a. tp = Some a
               \<and> attachFallback nt' tp w1 =
                   updTexture a (setFallbackTexture (fst (getFallbackTexture nt' w1)))
                     (snd (getFallbackTexture nt' w1)))"
    by (auto simp: loadImageTexture_def attachFallback_def split_beta
        split: option.splits)
qed

theorem null_texture_dereferenced_witness:
  "run nullLoaderEnv pixelTask requestWorld = Inl NullPointerDereference
   \<and> (\<exists>w1. loadImageTexture exampleEnv
              \<lparr>url = exampleUrl, textureType = ALBEDO_TEXTURE, maxNumPixels = 100,
               textureLoader = None, loaded = False, failedToLoad = False,
               startedLoading = False, originalWidth = 0, originalHeight = 0,
               width = 0, height = 0, bytes = 0, textureSource = None, ktxFile = None\<rparr>
              \<lparr>imgWidth = 4, imgHeight = 2, imgFormat = Format_Valid 0\<rparr>
              ''http://a/b.png'' requestWorld = Inr (Some 0, w1)
         \<and> attachFallback
              \<lparr>url = exampleUrl, textureType = ALBEDO_TEXTURE, maxNumPixels = 100,
               textureLoader = None, loaded = False, failedToLoad = False,
               startedLoading = False, originalWidth = 0, originalHeight = 0,
               width = 0, height = 0, bytes = 0, textureSource = None, ktxFile = None\<rparr>
              (Some 0) w1 \<noteq> w1)"
proof -
  let ?R = "\<lparr>url = exampleUrl, textureType = ALBEDO_TEXTURE, maxNumPixels = 100,
               textureLoader = None, loaded = False, failedToLoad = False,
               startedLoading = False, originalWidth = 0, originalHeight = 0,
               width = 0, height = 0, bytes = 0, textureSource = None, ktxFile = None\<rparr>"
  let ?I = "\<lparr>imgWidth = 4, imgHeight = 2, imgFormat = Format_Valid 0\<rparr>"
  note T = null_texture_dereferenced [OF pixelTask_parses(4) requestWorld_resource
      albedo_loader pixelTask_loads(4)]
  have "\<exists>w1. loadImageTexture exampleEnv ?R ?I ''http://a/b.png'' requestWorld
                = Inr (Some 0, w1)
            \<and> nextAddr w1 = 1 \<and> whiteTexture (cache w1) = None \<and> cacheLive w1"
    by (simp add: loadImageTexture_def albedo_loader exampleEnv_simps reset_def newTexture_def
        updTexture_def requestWorld_fields emptyCache_def)
  then obtain w1 where
    l: "loadImageTexture exampleEnv ?R ?I ''http://a/b.png'' requestWorld = Inr (Some 0, w1)"
      and n: "nextAddr w1 = 1" "whiteTexture (cache w1) = None" "cacheLive w1"
    by blast
  from T l have a: "attachFallback ?R (Some 0) w1 =
      updTexture 0 (setFallbackTexture (fst (getFallbackTexture ?R w1)))
        (snd (getFallbackTexture ?R w1))"
    by blast
  have "nextAddr (attachFallback ?R (Some 0) w1) = 2"
    unfolding a using n
    by (simp add: updTexture_def getFallbackTexture_def getFallbackTextureForType_def
        getWhiteTexture_def newTexture_def)
  with n have "attachFallback ?R (Some 0) w1 \<noteq> w1" by auto
  with T l show ?thesis by blast
qed

subsection \<open>A buffer that does not parse\<close>

text \<open>
  C3, as the code has it. When the buffer fails to parse (zero width, zero height or an
  invalid format), the task returns at once and leaves the state exactly as it was:
  nothing is registered under the task's hash, nothing is posted to the resource, and
  the resource keeps the state it had.
\<close>

theorem unparsed_buffer_changes_nothing:
  assumes "failedToParse (fromData e (taskContent t)
             (filenameExtension (urlFileName (taskUrl t))))"
  shows "run e t w = Inr w"
  using assms by (simp add: run_def runAmong_def readAmong_def decode_def)

lemma loadingWorld_eq:
  "loadingWorld = startWorld\<lparr>
     cache := emptyCache\<lparr>texturesByHashes := [[] \<mapsto> None]\<rparr>,
     resources := [0 \<mapsto> \<lparr>url = exampleUrl, textureType = DEFAULT_TEXTURE, maxNumPixels = 100,
                textureLoader = None, loaded = False, failedToLoad = False,
                startedLoading = False, originalWidth = 0, originalHeight = 0,
                width = 0, height = 0, bytes = 0, textureSource = None, ktxFile = None\<rparr>],
     threadPool := [emptyTask]\<rparr>"
  by (simp add: loadingWorld_def emptyTask_def NetworkTexture_def loadContent_def
      TextureCache_getTextureByHash_def getTextureByHash_def subscript_def lock_def
      loadFromKtxCache_def getFile_def startImageReader_def startWorld_def emptyCache_def
      exampleEnv_def exampleUrl_def Let_def)

lemma emptyTask_fails:
  "failedToParse (fromData exampleEnv (taskContent emptyTask)
             (filenameExtension (urlFileName (taskUrl emptyTask))))"
  by (simp add: failedToParse_def exampleEnv_def emptyTask_def)

theorem unparsed_buffer_changes_nothing_witness:
  "run exampleEnv emptyTask loadingWorld = Inr loadingWorld"
  using unparsed_buffer_changes_nothing [OF emptyTask_fails] by simp

text \<open>The task for a zero-length buffer ends with the resource still loading, not
  failed.\<close>

theorem unparsed_buffer_not_failed:
  "threadPool loadingWorld = [emptyTask]
   \<and> eventQueue loadingWorld = []
   \<and> run exampleEnv emptyTask loadingWorld = Inr loadingWorld
   \<and> map_option stateOf (resources loadingWorld 0) = Some Loading"
  by (simp add: loadingWorld_eq run_def runAmong_def readAmong_def decode_def
      failedToParse_def emptyTask_def exampleEnv_def stateOf_def startWorld_def Let_def)

subsection \<open>The constructor\<close>

text \<open>
  C8, as the code has it. A resource constructed with an invalid URL is loaded, holds
  no texture, and the constructor itself starts no task and touches no cache. With
  empty inline content nothing is posted either; with non-empty inline content the
  constructor posts \<open>loadContent\<close> all the same.
\<close>

theorem invalid_url_ready:
  assumes "\<not> urlValid u"
  shows "(\<exists>r. resources (NetworkTexture self u ty content n w) self = Some r
            \<and> stateOf r = Ready \<and> textureSource r = None)
       \<and> threadPool (NetworkTexture self u ty content n w) = threadPool w
       \<and> cache (NetworkTexture self u ty content n w) = cache w
       \<and> eventQueue (NetworkTexture self u ty content n w)
           = eventQueue w @ (if content = [] then [] else [LoadContent self content])"
  using assms by (simp add: NetworkTexture_def stateOf_def Let_def)

theorem invalid_url_ready_witness:
  "map_option stateOf (resources (NetworkTexture 0 invalidUrl DEFAULT_TEXTURE [] 100 startWorld) 0)
     = Some Ready
   \<and> eventQueue (NetworkTexture 0 invalidUrl DEFAULT_TEXTURE [] 100 startWorld) = []
   \<and> threadPool (NetworkTexture 0 invalidUrl DEFAULT_TEXTURE [] 100 startWorld) = []"
  using invalid_url_ready [of invalidUrl 0 DEFAULT_TEXTURE "[]" 100 startWorld]
  by (auto simp: invalidUrl_def startWorld_def)

text \<open>An invalid URL with the inline content \<open>[1]\<close>: once the posted call has run, the
  content has been hashed and a decode task started.\<close>

theorem invalid_url_still_decodes:
  "threadPool (processEvents exampleEnv
      (NetworkTexture 0 invalidUrl DEFAULT_TEXTURE [1] 100 startWorld))
     = [\<lparr>taskResource = 0, taskUrl = invalidUrl, taskContent = [1], taskHash = ''1'',
         taskMaxNumPixels = 100\<rparr>]"
  by (simp add: NetworkTexture_def loadContent_def TextureCache_getTextureByHash_def
      getTextureByHash_def subscript_def lock_def loadFromKtxCache_def getFile_def
      startImageReader_def startWorld_def emptyCache_def exampleEnv_def invalidUrl_def
      processEvents_def Let_def)

subsection \<open>setImage\<close>

text \<open>
  C10. Every call of \<open>setImage\<close> on a resource marks it loaded and emits
  \<open>networkTextureCreated\<close>, and never marks it failed: a resource that had not failed
  is Ready afterwards, also when the texture is null, in which case its width and
  height are 0.
\<close>

theorem setImage_always_loaded:
  assumes "resources w self = Some r"
  shows "(\<exists>r'. resources (setImage e self texture ow oh w) self = Some r'
           \<and> loaded r' \<and> failedToLoad r' = failedToLoad r
           \<and> (\<not> failedToLoad r \<longrightarrow> stateOf r' = Ready)
           \<and> textureSource r' = texture \<and> originalWidth r' = ow \<and> originalHeight r' = oh
           \<and> (texture = None \<longrightarrow> width r' = 0 \<and> height r' = 0))
       \<and> emitted (setImage e self texture ow oh w) = emitted w @ [networkTextureCreated self]"
  using setImage_result [OF assms, of e texture ow oh]
  by (auto simp: setImage_frame stateOf_def)

theorem setImage_always_loaded_witness:
  "map_option stateOf (resources (setImage exampleEnv 0 None 4 2 requestWorld) 0) = Some Ready
   \<and> map_option width (resources (setImage exampleEnv 0 None 4 2 requestWorld) 0) = Some 0
   \<and> map_option height (resources (setImage exampleEnv 0 None 4 2 requestWorld) 0) = Some 0
   \<and> emitted (setImage exampleEnv 0 None 4 2 requestWorld) = [networkTextureCreated 0]"
  using setImage_always_loaded [of requestWorld 0 _ exampleEnv None 4 2]
  by (auto simp: requestWorld_eq startWorld_def)

end
